theory Spec2Isabelle
  imports Main "HOL-Library.AList"
begin

section \<open>JSON values as Python sees them\<close>

text \<open>
  The handlers of \<^verbatim>\<open>app.py\<close> work on what \<^verbatim>\<open>request.get_json()\<close> returns and on
  what \<^verbatim>\<open>jsonify\<close> is given: JSON values. A JSON object is kept as an association
  list (a Python dict keeps insertion order); \<open>JNull\<close> is Python's \<^verbatim>\<open>None\<close>, which is
  also what \<^verbatim>\<open>get_json\<close> yields for a request without a usable body. Numbers are
  integers here; no handler computes with them.
\<close>

datatype json =
    JNull
  | JBool bool
  | JNum int
  | JStr string
  | JArr "json list"
  | JObj "(string \<times> json) list"

type_synonym item = "(string \<times> json) list"

text \<open>An HTTP response is the pair the handlers return: the JSON body and the status.\<close>

type_synonym response = "json \<times> nat"

text \<open>Python's truth value of a JSON value, as tested by \<^verbatim>\<open>if not data\<close>.\<close>

fun truthy :: "json \<Rightarrow> bool" where
  "truthy JNull = False"
| "truthy (JBool b) = b"
| "truthy (JNum n) = (n \<noteq> 0)"
| "truthy (JStr s) = (s \<noteq> [])"
| "truthy (JArr xs) = (xs \<noteq> [])"
| "truthy (JObj kv) = (kv \<noteq> [])"

subsection \<open>Exceptions\<close>

text \<open>
  Every exception carries its message, which \<^verbatim>\<open>str(e)\<close> reads. The handlers tell
  apart \<open>CosmosResourceNotFoundError\<close> and \<open>CosmosResourceExistsError\<close>; everything
  else is caught by \<^verbatim>\<open>except Exception\<close>.
\<close>

datatype exc =
    CosmosResourceNotFoundError string
  | CosmosResourceExistsError string
  | ResourceNotFoundError string
  | HttpResponseError string
  | TypeError string
  | KeyError string
  | ValueError string

fun str :: "exc \<Rightarrow> string" where
  "str (CosmosResourceNotFoundError m) = m"
| "str (CosmosResourceExistsError m) = m"
| "str (ResourceNotFoundError m) = m"
| "str (HttpResponseError m) = m"
| "str (TypeError m) = m"
| "str (KeyError m) = m"
| "str (ValueError m) = m"

subsection \<open>Membership, indexing and item assignment on a JSON value\<close>

text \<open>A name between apostrophes, as Python's messages and the log lines print it.\<close>

definition quoted :: "string \<Rightarrow> string" where
  "quoted s = CHR 0x27 # s @ [CHR 0x27]"

fun has_prefix :: "string \<Rightarrow> string \<Rightarrow> bool" where
  "has_prefix [] ys = True"
| "has_prefix (x # xs) [] = False"
| "has_prefix (x # xs) (y # ys) = (x = y \<and> has_prefix xs ys)"

fun substring_of :: "string \<Rightarrow> string \<Rightarrow> bool" where
  "substring_of p [] = (p = [])"
| "substring_of p (c # cs) = (has_prefix p (c # cs) \<or> substring_of p cs)"

text \<open>
  \<^verbatim>\<open>k in data\<close>: a key of a dict, an element of a list, a substring of a string; a
  number or a boolean is not iterable and the test raises \<^verbatim>\<open>TypeError\<close>.
\<close>

fun py_in :: "string \<Rightarrow> json \<Rightarrow> exc + bool" where
  "py_in k (JObj kv) = Inr (k \<in> fst ` set kv)"
| "py_in k (JArr xs) = Inr (JStr k \<in> set xs)"
| "py_in k (JStr s) = Inr (substring_of k s)"
| "py_in k (JNum n) = Inl (TypeError ''argument of type 'int' is not iterable'')"
| "py_in k (JBool b) = Inl (TypeError ''argument of type 'bool' is not iterable'')"
| "py_in k JNull = Inl (TypeError ''argument of type 'NoneType' is not iterable'')"

text \<open>\<^verbatim>\<open>data[k]\<close> with a string key.\<close>

fun py_getitem :: "json \<Rightarrow> string \<Rightarrow> exc + json" where
  "py_getitem (JObj kv) k = (case map_of kv k of None \<Rightarrow> Inl (KeyError k) | Some v \<Rightarrow> Inr v)"
| "py_getitem (JArr xs) k = Inl (TypeError ''list indices must be integers or slices, not str'')"
| "py_getitem (JStr s) k = Inl (TypeError ''string indices must be integers, not str'')"
| "py_getitem (JNum n) k = Inl (TypeError (quoted ''int'' @ '' object is not subscriptable''))"
| "py_getitem (JBool b) k = Inl (TypeError (quoted ''bool'' @ '' object is not subscriptable''))"
| "py_getitem JNull k = Inl (TypeError (quoted ''NoneType'' @ '' object is not subscriptable''))"

text \<open>\<^verbatim>\<open>data[k] = v\<close>: a dict replaces the value in place or appends the new key.\<close>

fun py_setitem :: "json \<Rightarrow> string \<Rightarrow> json \<Rightarrow> exc + json" where
  "py_setitem (JObj kv) k v = Inr (JObj (AList.update k v kv))"
| "py_setitem (JArr xs) k v = Inl (TypeError ''list indices must be integers or slices, not str'')"
| "py_setitem (JStr s) k v = Inl (TypeError (quoted ''str'' @ '' object does not support item assignment''))"
| "py_setitem (JNum n) k v = Inl (TypeError (quoted ''int'' @ '' object does not support item assignment''))"
| "py_setitem (JBool b) k v = Inl (TypeError (quoted ''bool'' @ '' object does not support item assignment''))"
| "py_setitem JNull k v = Inl (TypeError (quoted ''NoneType'' @ '' object does not support item assignment''))"

section \<open>The document store behind the container handle\<close>

text \<open>
  The store is an external collaborator; \<^verbatim>\<open>app.py\<close> only calls it. It is modelled by
  the contract the handlers rely on: a container partitioned on \<^verbatim>\<open>/category\<close> holds
  documents addressed by the pair (id, partition key); a point read or delete of a
  missing document raises \<open>CosmosResourceNotFoundError\<close>; a strict create of an
  existing one raises \<open>CosmosResourceExistsError\<close>; an upsert replaces or inserts. While
  \<open>outage\<close> is set, every call raises a generic error with that message (service
  unreachable, request refused), which is the path \<^verbatim>\<open>except Exception\<close> exists for.
\<close>

record cosmos_container =
  partition_key_path :: string
  offer_throughput :: nat
  documents :: "item list"
  outage :: "string option"

definition doc_key :: "item \<Rightarrow> json option \<times> json option" where
  "doc_key d = (map_of d ''id'', map_of d ''category'')"

definition point_key :: "string \<Rightarrow> string \<Rightarrow> json option \<times> json option" where
  "point_key i pk = (Some (JStr i), Some (JStr pk))"

definition container_read_all_items :: "cosmos_container \<Rightarrow> exc + item list" where
  "container_read_all_items c =
     (case outage c of
        Some m \<Rightarrow> Inl (HttpResponseError m)
      | None \<Rightarrow> Inr (documents c))"

definition container_read_item :: "cosmos_container \<Rightarrow> string \<Rightarrow> string \<Rightarrow> exc + item" where
  "container_read_item c i pk =
     (case outage c of
        Some m \<Rightarrow> Inl (HttpResponseError m)
      | None \<Rightarrow>
          (case find (\<lambda>d. doc_key d = point_key i pk) (documents c) of
             None \<Rightarrow> Inl (CosmosResourceNotFoundError ''Resource Not Found'')
           | Some d \<Rightarrow> Inr d))"

definition container_create_item :: "cosmos_container \<Rightarrow> json \<Rightarrow> exc + item \<times> cosmos_container" where
  "container_create_item c body =
     (case outage c of
        Some m \<Rightarrow> Inl (HttpResponseError m)
      | None \<Rightarrow>
          (case body of
             JObj d \<Rightarrow>
               if \<exists>x \<in> set (documents c). doc_key x = doc_key d
               then Inl (CosmosResourceExistsError ''Resource with specified id already exists'')
               else Inr (d, c\<lparr>documents := documents c @ [d]\<rparr>)
           | _ \<Rightarrow> Inl (TypeError ''document body is not a mapping'')))"

definition container_upsert_item :: "cosmos_container \<Rightarrow> json \<Rightarrow> exc + item \<times> cosmos_container" where
  "container_upsert_item c body =
     (case outage c of
        Some m \<Rightarrow> Inl (HttpResponseError m)
      | None \<Rightarrow>
          (case body of
             JObj d \<Rightarrow>
               if \<exists>x \<in> set (documents c). doc_key x = doc_key d
               then Inr (d, c\<lparr>documents := map (\<lambda>x. if doc_key x = doc_key d then d else x) (documents c)\<rparr>)
               else Inr (d, c\<lparr>documents := documents c @ [d]\<rparr>)
           | _ \<Rightarrow> Inl (TypeError ''document body is not a mapping'')))"

definition container_delete_item :: "cosmos_container \<Rightarrow> string \<Rightarrow> string \<Rightarrow> exc + cosmos_container" where
  "container_delete_item c i pk =
     (case outage c of
        Some m \<Rightarrow> Inl (HttpResponseError m)
      | None \<Rightarrow>
          if \<exists>x \<in> set (documents c). doc_key x = point_key i pk
          then Inr (c\<lparr>documents := filter (\<lambda>x. doc_key x \<noteq> point_key i pk) (documents c)\<rparr>)
          else Inl (CosmosResourceNotFoundError ''Resource Not Found''))"

text \<open>
  The account that \<^verbatim>\<open>CosmosClient\<close> connects to: its databases, each a list of
  containers by id, and the failures it may answer with when the client is built, when
  a database is created and when a container is created.
\<close>

record cosmos_account =
  connect_fault :: "string option"
  database_fault :: "string option"
  container_fault :: "string option"
  databases :: "(string \<times> (string \<times> cosmos_container) list) list"

definition CosmosClient :: "cosmos_account \<Rightarrow> string \<Rightarrow> exc + string" where
  "CosmosClient acct endpoint =
     (case connect_fault acct of
        Some m \<Rightarrow> Inl (HttpResponseError m)
      | None \<Rightarrow> Inr endpoint)"

definition create_database_if_not_exists :: "cosmos_account \<Rightarrow> string \<Rightarrow> exc + cosmos_account" where
  "create_database_if_not_exists acct db =
     (case database_fault acct of
        Some m \<Rightarrow> Inl (HttpResponseError m)
      | None \<Rightarrow>
          (case map_of (databases acct) db of
             Some cs \<Rightarrow> Inr acct
           | None \<Rightarrow> Inr (acct\<lparr>databases := databases acct @ [(db, [])]\<rparr>)))"

definition create_container_if_not_exists ::
  "cosmos_account \<Rightarrow> string \<Rightarrow> string \<Rightarrow> string \<Rightarrow> nat \<Rightarrow> exc + cosmos_container \<times> cosmos_account" where
  "create_container_if_not_exists acct db cid path throughput =
     (case container_fault acct of
        Some m \<Rightarrow> Inl (HttpResponseError m)
      | None \<Rightarrow>
          (case map_of (databases acct) db of
             None \<Rightarrow> Inl (CosmosResourceNotFoundError ''Resource Not Found'')
           | Some cs \<Rightarrow>
               (case map_of cs cid of
                  Some c \<Rightarrow> Inr (c, acct)
                | None \<Rightarrow>
                    (let c = \<lparr>partition_key_path = path, offer_throughput = throughput,
                              documents = [], outage = None\<rparr>
                     in Inr (c, acct\<lparr>databases := AList.update db (cs @ [(cid, c)]) (databases acct)\<rparr>)))))"

section \<open>The secret store behind the Key Vault handle\<close>

text \<open>
  A timestamp is what the vault sends; how \<^verbatim>\<open>isoformat()\<close> prints one belongs to
  Python's library and is a parameter of the handlers that call it.
\<close>

datatype datetime = Timestamp int

record secret_properties =
  name :: string
  enabled :: bool
  created_on :: "datetime option"
  updated_on :: "datetime option"

record key_vault_secret =
  properties :: secret_properties
  secret_value :: string

record key_vault =
  secrets :: "key_vault_secret list"
  vault_outage :: "string option"
  bind_fault :: "string option"
  now :: datetime

definition SecretClient :: "key_vault \<Rightarrow> string \<Rightarrow> exc + key_vault" where
  "SecretClient kv url =
     (case bind_fault kv of
        Some m \<Rightarrow> Inl (ValueError m)
      | None \<Rightarrow> Inr kv)"

definition list_properties_of_secrets :: "key_vault \<Rightarrow> exc + secret_properties list" where
  "list_properties_of_secrets kv =
     (case vault_outage kv of
        Some m \<Rightarrow> Inl (HttpResponseError m)
      | None \<Rightarrow> Inr (map properties (secrets kv)))"

definition secret_not_found :: "string \<Rightarrow> string" where
  "secret_not_found n = ''(SecretNotFound) A secret with (name/id) '' @ n @ '' was not found in this key vault''"

definition keyvault_get_secret :: "key_vault \<Rightarrow> string \<Rightarrow> exc + key_vault_secret" where
  "keyvault_get_secret kv n =
     (case vault_outage kv of
        Some m \<Rightarrow> Inl (HttpResponseError m)
      | None \<Rightarrow>
          (case find (\<lambda>s. name (properties s) = n) (secrets kv) of
             None \<Rightarrow> Inl (ResourceNotFoundError (secret_not_found n))
           | Some s \<Rightarrow> Inr s))"

definition keyvault_set_secret :: "key_vault \<Rightarrow> string \<Rightarrow> json \<Rightarrow> exc + key_vault_secret \<times> key_vault" where
  "keyvault_set_secret kv n v =
     (case vault_outage kv of
        Some m \<Rightarrow> Inl (HttpResponseError m)
      | None \<Rightarrow>
          (case v of
             JStr x \<Rightarrow>
               (let s = \<lparr>properties = \<lparr>name = n, enabled = True,
                                       created_on = Some (now kv), updated_on = Some (now kv)\<rparr>,
                         secret_value = x\<rparr>
                in Inr (s, kv\<lparr>secrets := filter (\<lambda>t. name (properties t) \<noteq> n) (secrets kv) @ [s]\<rparr>))
           | _ \<Rightarrow> Inl (TypeError ''secret value is not a string'')))"

section \<open>Configuration and the process-wide handles\<close>

text \<open>\<^verbatim>\<open>os.getenv\<close>: the environment maps a variable to its value, if set.\<close>

type_synonym environ = "string \<Rightarrow> string option"

definition getenv_default :: "environ \<Rightarrow> string \<Rightarrow> string \<Rightarrow> string" where
  "getenv_default env k dflt = (case env k of None \<Rightarrow> dflt | Some v \<Rightarrow> v)"

definition COSMOS_ENDPOINT :: "environ \<Rightarrow> string option" where
  "COSMOS_ENDPOINT env = env ''COSMOS_ENDPOINT''"

definition DATABASE_NAME :: "environ \<Rightarrow> string" where
  "DATABASE_NAME env = getenv_default env ''COSMOS_DATABASE_NAME'' ''SampleDB''"

definition CONTAINER_NAME :: "environ \<Rightarrow> string" where
  "CONTAINER_NAME env = getenv_default env ''COSMOS_CONTAINER_NAME'' ''Items''"

definition KEY_VAULT_URL :: "environ \<Rightarrow> string option" where
  "KEY_VAULT_URL env = env ''KEY_VAULT_URL''"

datatype level = INFO | WARNING | ERROR

text \<open>
  The module's globals, with what the logger has written. \<open>cosmos_client\<close> holds the
  endpoint the client is bound to, \<open>database\<close> the id of the database proxy,
  \<open>container\<close> and \<open>keyvault_client\<close> the store each handle reaches.
\<close>

record app =
  cosmos_client :: "string option"
  database :: "string option"
  container :: "cosmos_container option"
  keyvault_client :: "key_vault option"
  logger :: "(level \<times> string) list"

definition initial_app :: app where
  "initial_app = \<lparr>cosmos_client = None, database = None, container = None,
                   keyvault_client = None, logger = []\<rparr>"

definition logging :: "level \<Rightarrow> string \<Rightarrow> app \<Rightarrow> app" where
  "logging l m s = s\<lparr>logger := logger s @ [(l, m)]\<rparr>"

section \<open>Client initialisation\<close>

text \<open>
  The \<^verbatim>\<open>try\<close> block of \<^verbatim>\<open>initialize_cosmos_client\<close>: the globals are assigned one by
  one, so an exception leaves the earlier assignments in place. The result is the
  exception with the state it was raised in, or the state reached.
\<close>

definition initialize_cosmos_try ::
  "environ \<Rightarrow> cosmos_account \<Rightarrow> app \<Rightarrow> (exc \<times> app \<times> cosmos_account) + (app \<times> cosmos_account)" where
  "initialize_cosmos_try env acct s =
     (case COSMOS_ENDPOINT env of
        None \<Rightarrow> Inl (ValueError ''COSMOS_ENDPOINT environment variable is not set'', s, acct)
      | Some ep \<Rightarrow>
          if ep = [] then Inl (ValueError ''COSMOS_ENDPOINT environment variable is not set'', s, acct)
          else
            (let s0 = logging INFO (''Connecting to Cosmos DB at '' @ ep) s in
             case CosmosClient acct ep of
               Inl e \<Rightarrow> Inl (e, s0, acct)
             | Inr cl \<Rightarrow>
                 (let s1 = s0\<lparr>cosmos_client := Some cl\<rparr> in
                  case create_database_if_not_exists acct (DATABASE_NAME env) of
                    Inl e \<Rightarrow> Inl (e, s1, acct)
                  | Inr acct1 \<Rightarrow>
                      (let s2 = logging INFO (''Database '' @ quoted (DATABASE_NAME env) @ '' ready'')
                                  (s1\<lparr>database := Some (DATABASE_NAME env)\<rparr>) in
                       case create_container_if_not_exists acct1 (DATABASE_NAME env)
                              (CONTAINER_NAME env) ''/category'' 400 of
                         Inl e \<Rightarrow> Inl (e, s2, acct1)
                       | Inr (c, acct2) \<Rightarrow>
                           Inr (logging INFO (''Container '' @ quoted (CONTAINER_NAME env) @ '' ready'')
                                  (s2\<lparr>container := Some c\<rparr>), acct2)))))"

definition initialize_cosmos_client ::
  "environ \<Rightarrow> cosmos_account \<Rightarrow> app \<Rightarrow> bool \<times> app \<times> cosmos_account" where
  "initialize_cosmos_client env acct s =
     (case initialize_cosmos_try env acct s of
        Inr (s', acct') \<Rightarrow> (True, s', acct')
      | Inl (e, s', acct') \<Rightarrow>
          (False, logging ERROR (''Failed to initialize Cosmos DB client: '' @ str e) s', acct'))"

text \<open>
  \<^verbatim>\<open>initialize_keyvault_client\<close> is defined twice in the module; the second
  definition replaces the first and is the one that runs.
\<close>

definition initialize_keyvault_client :: "environ \<Rightarrow> key_vault \<Rightarrow> app \<Rightarrow> bool \<times> app" where
  "initialize_keyvault_client env kv s =
     (case KEY_VAULT_URL env of
        None \<Rightarrow> (False, logging WARNING ''KEY_VAULT_URL environment variable is not set'' s)
      | Some url \<Rightarrow>
          if url = [] then (False, logging WARNING ''KEY_VAULT_URL environment variable is not set'' s)
          else
            (let s0 = logging INFO (''Connecting to Key Vault at '' @ url) s in
             case SecretClient kv url of
               Inl e \<Rightarrow> (False, logging ERROR (''Failed to initialize Key Vault client: '' @ str e) s0)
             | Inr cl \<Rightarrow>
                 (True, logging INFO ''Key Vault client initialized successfully''
                          (s0\<lparr>keyvault_client := Some cl\<rparr>))))"

text \<open>Module load: both initialisers run once on the initial globals, results dropped.\<close>

definition startup :: "environ \<Rightarrow> cosmos_account \<Rightarrow> key_vault \<Rightarrow> app" where
  "startup env acct kv =
     (case initialize_cosmos_client env acct initial_app of
        (ok, s, acct') \<Rightarrow> snd (initialize_keyvault_client env kv s))"

section \<open>Request handlers\<close>

definition error_body :: "string \<Rightarrow> json" where
  "error_body m = JObj [(''error'', JStr m)]"

definition health_check :: "app \<Rightarrow> response" where
  "health_check s =
     (JObj [(''status'', JStr ''healthy''),
            (''cosmos_connected'', JBool (cosmos_client s \<noteq> None)),
            (''keyvault_connected'', JBool (keyvault_client s \<noteq> None))], 200)"

text \<open>
  Each handler is a \<^verbatim>\<open>try\<close> block and its \<^verbatim>\<open>except\<close> clauses. The block is the
  \<open>_try\<close> function: the response and the state after it, or the exception raised. The
  handler maps the exception to a response as the clauses do, in their order.
\<close>

definition get_items_try :: "app \<Rightarrow> exc + response \<times> app" where
  "get_items_try s =
     (case container s of
        None \<Rightarrow> Inr ((error_body ''Cosmos DB not initialized'', 500), s)
      | Some c \<Rightarrow>
          (case container_read_all_items c of
             Inl e \<Rightarrow> Inl e
           | Inr items \<Rightarrow>
               Inr ((JObj [(''count'', JNum (int (length items))),
                           (''items'', JArr (map JObj items))], 200), s)))"

definition get_items :: "app \<Rightarrow> response \<times> app" where
  "get_items s =
     (case get_items_try s of
        Inr r \<Rightarrow> r
      | Inl e \<Rightarrow> ((error_body (str e), 500), logging ERROR (''Error fetching items: '' @ str e) s))"

text \<open>
  \<^verbatim>\<open>request.args.get('category')\<close> is \<open>None\<close> when the query has no such parameter;
  \<^verbatim>\<open>if not category\<close> is true for \<open>None\<close> and for the empty string.
\<close>

definition get_item_try :: "app \<Rightarrow> string \<Rightarrow> string option \<Rightarrow> exc + response \<times> app" where
  "get_item_try s item_id category =
     (case container s of
        None \<Rightarrow> Inr ((error_body ''Cosmos DB not initialized'', 500), s)
      | Some c \<Rightarrow>
          (case category of
             None \<Rightarrow> Inr ((error_body ''category query parameter is required'', 400), s)
           | Some cat \<Rightarrow>
               if cat = []
               then Inr ((error_body ''category query parameter is required'', 400), s)
               else
                 (case container_read_item c item_id cat of
                    Inl e \<Rightarrow> Inl e
                  | Inr d \<Rightarrow> Inr ((JObj d, 200), s))))"

definition get_item :: "app \<Rightarrow> string \<Rightarrow> string option \<Rightarrow> response \<times> app" where
  "get_item s item_id category =
     (case get_item_try s item_id category of
        Inr r \<Rightarrow> r
      | Inl (CosmosResourceNotFoundError m) \<Rightarrow> ((error_body ''Item not found'', 404), s)
      | Inl e \<Rightarrow> ((error_body (str e), 500), logging ERROR (''Error fetching item: '' @ str e) s))"

definition create_item_try :: "app \<Rightarrow> json \<Rightarrow> exc + response \<times> app" where
  "create_item_try s data =
     (case container s of
        None \<Rightarrow> Inr ((error_body ''Cosmos DB not initialized'', 500), s)
      | Some c \<Rightarrow>
          if \<not> truthy data
          then Inr ((error_body ''Request body is required'', 400), s)
          else
            (case py_in ''id'' data of
               Inl e \<Rightarrow> Inl e
             | Inr False \<Rightarrow> Inr ((error_body ''id and category fields are required'', 400), s)
             | Inr True \<Rightarrow>
                 (case py_in ''category'' data of
                    Inl e \<Rightarrow> Inl e
                  | Inr False \<Rightarrow> Inr ((error_body ''id and category fields are required'', 400), s)
                  | Inr True \<Rightarrow>
                      (case container_create_item c data of
                         Inl e \<Rightarrow> Inl e
                       | Inr (created_item, c') \<Rightarrow>
                           Inr ((JObj created_item, 201), s\<lparr>container := Some c'\<rparr>)))))"

definition create_item :: "app \<Rightarrow> json \<Rightarrow> response \<times> app" where
  "create_item s data =
     (case create_item_try s data of
        Inr r \<Rightarrow> r
      | Inl (CosmosResourceExistsError m) \<Rightarrow> ((error_body ''Item already exists'', 409), s)
      | Inl e \<Rightarrow> ((error_body (str e), 500), logging ERROR (''Error creating item: '' @ str e) s))"

definition update_item_try :: "app \<Rightarrow> string \<Rightarrow> json \<Rightarrow> exc + response \<times> app" where
  "update_item_try s item_id data =
     (case container s of
        None \<Rightarrow> Inr ((error_body ''Cosmos DB not initialized'', 500), s)
      | Some c \<Rightarrow>
          if \<not> truthy data
          then Inr ((error_body ''Request body is required'', 400), s)
          else
            (case py_in ''category'' data of
               Inl e \<Rightarrow> Inl e
             | Inr False \<Rightarrow> Inr ((error_body ''category field is required'', 400), s)
             | Inr True \<Rightarrow>
                 (case py_setitem data ''id'' (JStr item_id) of
                    Inl e \<Rightarrow> Inl e
                  | Inr data' \<Rightarrow>
                      (case container_upsert_item c data' of
                         Inl e \<Rightarrow> Inl e
                       | Inr (updated_item, c') \<Rightarrow>
                           Inr ((JObj updated_item, 200), s\<lparr>container := Some c'\<rparr>)))))"

definition update_item :: "app \<Rightarrow> string \<Rightarrow> json \<Rightarrow> response \<times> app" where
  "update_item s item_id data =
     (case update_item_try s item_id data of
        Inr r \<Rightarrow> r
      | Inl e \<Rightarrow> ((error_body (str e), 500), logging ERROR (''Error updating item: '' @ str e) s))"

definition delete_item_try :: "app \<Rightarrow> string \<Rightarrow> string option \<Rightarrow> exc + response \<times> app" where
  "delete_item_try s item_id category =
     (case container s of
        None \<Rightarrow> Inr ((error_body ''Cosmos DB not initialized'', 500), s)
      | Some c \<Rightarrow>
          (case category of
             None \<Rightarrow> Inr ((error_body ''category query parameter is required'', 400), s)
           | Some cat \<Rightarrow>
               if cat = []
               then Inr ((error_body ''category query parameter is required'', 400), s)
               else
                 (case container_delete_item c item_id cat of
                    Inl e \<Rightarrow> Inl e
                  | Inr c' \<Rightarrow>
                      Inr ((JObj [(''message'', JStr ''Item deleted successfully'')], 200),
                           s\<lparr>container := Some c'\<rparr>))))"

definition delete_item :: "app \<Rightarrow> string \<Rightarrow> string option \<Rightarrow> response \<times> app" where
  "delete_item s item_id category =
     (case delete_item_try s item_id category of
        Inr r \<Rightarrow> r
      | Inl (CosmosResourceNotFoundError m) \<Rightarrow> ((error_body ''Item not found'', 404), s)
      | Inl e \<Rightarrow> ((error_body (str e), 500), logging ERROR (''Error deleting item: '' @ str e) s))"

text \<open>
  The secret handlers take \<open>isoformat\<close>, the rendering of a timestamp as text. An
  attribute that is \<open>None\<close> is rendered as JSON null.
\<close>

definition iso_or_null :: "(datetime \<Rightarrow> string) \<Rightarrow> datetime option \<Rightarrow> json" where
  "iso_or_null isoformat t = (case t of None \<Rightarrow> JNull | Some d \<Rightarrow> JStr (isoformat d))"

definition list_secrets_try :: "app \<Rightarrow> exc + response \<times> app" where
  "list_secrets_try s =
     (case keyvault_client s of
        None \<Rightarrow> Inr ((error_body ''Key Vault not initialized'', 500), s)
      | Some kv \<Rightarrow>
          (case list_properties_of_secrets kv of
             Inl e \<Rightarrow> Inl e
           | Inr secret_properties \<Rightarrow>
               (let secrets = map (\<lambda>secret. JObj [(''name'', JStr (name secret)),
                                                   (''enabled'', JBool (enabled secret))])
                                  secret_properties
                in Inr ((JObj [(''count'', JNum (int (length secrets))),
                               (''secrets'', JArr secrets)], 200), s))))"

definition list_secrets :: "app \<Rightarrow> response \<times> app" where
  "list_secrets s =
     (case list_secrets_try s of
        Inr r \<Rightarrow> r
      | Inl e \<Rightarrow> ((error_body (str e), 500), logging ERROR (''Error listing secrets: '' @ str e) s))"

definition get_secret_try :: "(datetime \<Rightarrow> string) \<Rightarrow> app \<Rightarrow> string \<Rightarrow> exc + response \<times> app" where
  "get_secret_try isoformat s secret_name =
     (case keyvault_client s of
        None \<Rightarrow> Inr ((error_body ''Key Vault not initialized'', 500), s)
      | Some kv \<Rightarrow>
          (case keyvault_get_secret kv secret_name of
             Inl e \<Rightarrow> Inl e
           | Inr secret \<Rightarrow>
               Inr ((JObj [(''name'', JStr (name (properties secret))),
                           (''value'', JStr (secret_value secret)),
                           (''enabled'', JBool (enabled (properties secret))),
                           (''created_on'', iso_or_null isoformat (created_on (properties secret))),
                           (''updated_on'', iso_or_null isoformat (updated_on (properties secret)))],
                     200), s)))"

definition get_secret :: "(datetime \<Rightarrow> string) \<Rightarrow> app \<Rightarrow> string \<Rightarrow> response \<times> app" where
  "get_secret isoformat s secret_name =
     (case get_secret_try isoformat s secret_name of
        Inr r \<Rightarrow> r
      | Inl e \<Rightarrow>
          ((error_body (str e), 500),
           logging ERROR (''Error getting secret '' @ quoted secret_name @ '': '' @ str e) s))"

definition set_secret_try ::
  "(datetime \<Rightarrow> string) \<Rightarrow> app \<Rightarrow> string \<Rightarrow> json \<Rightarrow> exc + response \<times> app" where
  "set_secret_try isoformat s secret_name data =
     (case keyvault_client s of
        None \<Rightarrow> Inr ((error_body ''Key Vault not initialized'', 500), s)
      | Some kv \<Rightarrow>
          if \<not> truthy data
          then Inr ((error_body ''Request body must contain 'value' field'', 400), s)
          else
            (case py_in ''value'' data of
               Inl e \<Rightarrow> Inl e
             | Inr False \<Rightarrow> Inr ((error_body ''Request body must contain 'value' field'', 400), s)
             | Inr True \<Rightarrow>
                 (case py_getitem data ''value'' of
                    Inl e \<Rightarrow> Inl e
                  | Inr v \<Rightarrow>
                      (case keyvault_set_secret kv secret_name v of
                         Inl e \<Rightarrow> Inl e
                       | Inr (secret, kv') \<Rightarrow>
                           Inr ((JObj [(''name'', JStr (name (properties secret))),
                                       (''message'', JStr ''Secret created/updated successfully''),
                                       (''created_on'',
                                          iso_or_null isoformat (created_on (properties secret)))],
                                 201), s\<lparr>keyvault_client := Some kv'\<rparr>)))))"

definition set_secret :: "(datetime \<Rightarrow> string) \<Rightarrow> app \<Rightarrow> string \<Rightarrow> json \<Rightarrow> response \<times> app" where
  "set_secret isoformat s secret_name data =
     (case set_secret_try isoformat s secret_name data of
        Inr r \<Rightarrow> r
      | Inl e \<Rightarrow>
          ((error_body (str e), 500),
           logging ERROR (''Error setting secret '' @ quoted secret_name @ '': '' @ str e) s))"

section \<open>Concrete states used to evaluate the handlers\<close>

definition example_container :: "item list \<Rightarrow> cosmos_container" where
  "example_container ds = \<lparr>partition_key_path = ''/category'', offer_throughput = 400,
                            documents = ds, outage = None\<rparr>"

definition example_vault :: "key_vault_secret list \<Rightarrow> key_vault" where
  "example_vault xs = \<lparr>secrets = xs, vault_outage = None, bind_fault = None, now = Timestamp 0\<rparr>"

definition example_secret :: "string \<Rightarrow> string \<Rightarrow> key_vault_secret" where
  "example_secret n v = \<lparr>properties = \<lparr>name = n, enabled = True, created_on = Some (Timestamp 7),
                                         updated_on = None\<rparr>, secret_value = v\<rparr>"

definition ready_app :: "item list \<Rightarrow> key_vault_secret list \<Rightarrow> app" where
  "ready_app ds xs = \<lparr>cosmos_client = Some ''https://docs.example'', database = Some ''SampleDB'',
                       container = Some (example_container ds),
                       keyvault_client = Some (example_vault xs), logger = []\<rparr>"

definition example_environ :: environ where
  "example_environ = [''COSMOS_ENDPOINT'' \<mapsto> ''https://docs.example'']"

text \<open>
  An account that lets the client connect and refuses to create a database, as one
  does for an identity holding a data role only.
\<close>

definition forbidden_account :: cosmos_account where
  "forbidden_account = \<lparr>connect_fault = None, database_fault = Some ''Forbidden'',
                         container_fault = None, databases = []\<rparr>"

definition empty_account :: cosmos_account where
  "empty_account = \<lparr>connect_fault = None, database_fault = None,
                     container_fault = None, databases = []\<rparr>"

section \<open>Readiness is checked first\<close>

text \<open>
  Claim C1. Every document operation (list, get, create, update, delete) answers 500
  with a JSON error body when the container handle is absent, and every secret
  operation (list, get, set) does so when the Key Vault handle is absent. The state
  comes back unchanged, so no backend call was made and nothing was logged, and the
  answer does not depend on the parameters or the body: the check precedes all
  validation (a missing category gives 500 here, not 400).
\<close>

theorem not_ready_yields_500:
  "(container s = None \<longrightarrow>
      get_items s = ((error_body ''Cosmos DB not initialized'', 500), s) \<and>
      get_item s item_id category = ((error_body ''Cosmos DB not initialized'', 500), s) \<and>
      create_item s data = ((error_body ''Cosmos DB not initialized'', 500), s) \<and>
      update_item s item_id data = ((error_body ''Cosmos DB not initialized'', 500), s) \<and>
      delete_item s item_id category = ((error_body ''Cosmos DB not initialized'', 500), s)) \<and>
   (keyvault_client s = None \<longrightarrow>
      list_secrets s = ((error_body ''Key Vault not initialized'', 500), s) \<and>
      get_secret isoformat s secret_name = ((error_body ''Key Vault not initialized'', 500), s) \<and>
      set_secret isoformat s secret_name data = ((error_body ''Key Vault not initialized'', 500), s))"
  by (simp add: get_items_def get_items_try_def get_item_def get_item_try_def
        create_item_def create_item_try_def update_item_def update_item_try_def
        delete_item_def delete_item_try_def list_secrets_def list_secrets_try_def
        get_secret_def get_secret_try_def set_secret_def set_secret_try_def)

theorem not_ready_yields_500_witness:
  "container initial_app = None \<and> keyvault_client initial_app = None \<and>
   get_item initial_app ''a'' None =
     ((JObj [(''error'', JStr ''Cosmos DB not initialized'')], 500), initial_app) \<and>
   create_item initial_app JNull =
     ((JObj [(''error'', JStr ''Cosmos DB not initialized'')], 500), initial_app) \<and>
   set_secret (\<lambda>t. []) initial_app ''k'' JNull =
     ((JObj [(''error'', JStr ''Key Vault not initialized'')], 500), initial_app)"
  using not_ready_yields_500 [of initial_app "''a''" None JNull "\<lambda>t. []" "''k''"]
  by (simp add: initial_app_def error_body_def)

section \<open>Health reporting\<close>

lemma health_check_status: "snd (health_check s) = 200"
  by (simp add: health_check_def)

text \<open>
  Claim C2. The health report always has status 200 (lemma above), but its document
  flag reads \<open>cosmos_client\<close> while the document operations gate on \<open>container\<close>.
  The initialiser assigns \<open>cosmos_client\<close> before it creates the database, so when
  that creation fails the client stays set and the container stays absent: started
  against such an account, the service reports \<open>cosmos_connected = true\<close> and answers
  \<open>GET /items\<close> with 500, Cosmos DB not initialized.
\<close>

theorem health_check_connected_while_items_unavailable:
  "health_check (startup example_environ forbidden_account (example_vault [])) =
     (JObj [(''status'', JStr ''healthy''), (''cosmos_connected'', JBool True),
            (''keyvault_connected'', JBool False)], 200) \<and>
   fst (get_items (startup example_environ forbidden_account (example_vault []))) =
     (JObj [(''error'', JStr ''Cosmos DB not initialized'')], 500)"
  by (simp add: startup_def initialize_cosmos_client_def initialize_cosmos_try_def
        initialize_keyvault_client_def COSMOS_ENDPOINT_def KEY_VAULT_URL_def DATABASE_NAME_def
        getenv_default_def example_environ_def forbidden_account_def example_vault_def
        CosmosClient_def create_database_if_not_exists_def logging_def initial_app_def
        health_check_def get_items_def get_items_try_def error_body_def)

section \<open>Creating an item\<close>

text \<open>
  Claim C3. A body that is a JSON number has no \<open>id\<close> field, and the claim asks for
  400. The handler finds the body truthy, tests \<^verbatim>\<open>'id' not in data\<close> on a number, which
  raises \<open>TypeError\<close>, and the catch-all clause turns that into 500.
\<close>

theorem create_item_number_body_500:
  "fst (create_item (ready_app [] []) (JNum 5)) =
     (JObj [(''error'', JStr ''argument of type 'int' is not iterable'')], 500)"
  by (simp add: create_item_def create_item_try_def error_body_def ready_app_def)

section \<open>Counts\<close>

text \<open>
  Claim C10. In every 200 response of \<open>GET /items\<close> and of \<open>GET /secrets\<close> the
  \<open>count\<close> field is the number of elements of the array returned beside it.
\<close>

theorem count_matches_length:
  "(snd (fst (get_items s)) = 200 \<longrightarrow>
      (\<exists>xs. fst (fst (get_items s)) =
         JObj [(''count'', JNum (int (length xs))), (''items'', JArr xs)])) \<and>
   (snd (fst (list_secrets s)) = 200 \<longrightarrow>
      (\<exists>xs. fst (fst (list_secrets s)) =
         JObj [(''count'', JNum (int (length xs))), (''secrets'', JArr xs)]))"
  by (auto simp: get_items_def get_items_try_def list_secrets_def list_secrets_try_def
        split: option.splits sum.splits)

theorem count_matches_length_witness:
  "snd (fst (get_items (ready_app [[(''id'', JStr ''a''), (''category'', JStr ''c'')]] []))) = 200 \<and>
   snd (fst (list_secrets (ready_app [] [example_secret ''k'' ''v'', example_secret ''l'' ''w'']))) = 200 \<and>
   (\<exists>xs. fst (fst (get_items (ready_app [[(''id'', JStr ''a''), (''category'', JStr ''c'')]] []))) =
         JObj [(''count'', JNum (int (length xs))), (''items'', JArr xs)]) \<and>
   (\<exists>xs. fst (fst (list_secrets (ready_app [] [example_secret ''k'' ''v'', example_secret ''l'' ''w'']))) =
         JObj [(''count'', JNum (int (length xs))), (''secrets'', JArr xs)])"
proof -
  have a: "snd (fst (get_items (ready_app [[(''id'', JStr ''a''), (''category'', JStr ''c'')]] []))) = 200"
    by (simp add: get_items_def get_items_try_def ready_app_def example_container_def
          container_read_all_items_def)
  have b: "snd (fst (list_secrets (ready_app [] [example_secret ''k'' ''v'', example_secret ''l'' ''w'']))) = 200"
    by (simp add: list_secrets_def list_secrets_try_def ready_app_def example_vault_def
          list_properties_of_secrets_def)
  from a b
    count_matches_length [of "ready_app [[(''id'', JStr ''a''), (''category'', JStr ''c'')]] []"]
    count_matches_length [of "ready_app [] [example_secret ''k'' ''v'', example_secret ''l'' ''w'']"]
  show ?thesis by blast
qed

section \<open>Reading a secret\<close>

text \<open>
  Claim C7. With the Key Vault handle ready, a secret the vault returns is answered
  with 200 and its name, value, enabled flag and the two timestamps, each rendered by
  \<open>isoformat\<close> or null when unset. Whatever the vault raises is answered with 500 and
  the exception's message; for a missing secret that is the vault's not-found message.
  The handler never answers 404.
\<close>

theorem get_secret_responses:
  "keyvault_client s = Some kv \<Longrightarrow>
   (\<forall>secret. keyvault_get_secret kv secret_name = Inr secret \<longrightarrow>
      get_secret isoformat s secret_name =
        ((JObj [(''name'', JStr (name (properties secret))),
                (''value'', JStr (secret_value secret)),
                (''enabled'', JBool (enabled (properties secret))),
                (''created_on'', (case created_on (properties secret) of
                                    None \<Rightarrow> JNull | Some t \<Rightarrow> JStr (isoformat t))),
                (''updated_on'', (case updated_on (properties secret) of
                                    None \<Rightarrow> JNull | Some t \<Rightarrow> JStr (isoformat t)))], 200), s)) \<and>
   (\<forall>e. keyvault_get_secret kv secret_name = Inl e \<longrightarrow>
      fst (get_secret isoformat s secret_name) = (error_body (str e), 500)) \<and>
   (vault_outage kv = None \<and> (\<forall>x \<in> set (secrets kv). name (properties x) \<noteq> secret_name) \<longrightarrow>
      fst (get_secret isoformat s secret_name) = (error_body (secret_not_found secret_name), 500)) \<and>
   snd (fst (get_secret isoformat s secret_name)) \<noteq> 404"
proof -
  assume h: "keyvault_client s = Some kv"
  have nf: "vault_outage kv = None \<Longrightarrow> \<forall>x \<in> set (secrets kv). name (properties x) \<noteq> secret_name \<Longrightarrow>
        keyvault_get_secret kv secret_name = Inl (ResourceNotFoundError (secret_not_found secret_name))"
  proof -
    assume o: "vault_outage kv = None"
      and a: "\<forall>x \<in> set (secrets kv). name (properties x) \<noteq> secret_name"
    from a have "find (\<lambda>x. name (properties x) = secret_name) (secrets kv) = None"
      by (simp add: find_None_iff)
    with o show ?thesis by (simp add: keyvault_get_secret_def)
  qed
  show ?thesis
    using h nf
    by (auto simp: get_secret_def get_secret_try_def iso_or_null_def split: sum.splits)
qed

theorem get_secret_responses_witness:
  "keyvault_client (ready_app [] [example_secret ''k'' ''v'']) =
     Some (example_vault [example_secret ''k'' ''v'']) \<and>
   keyvault_get_secret (example_vault [example_secret ''k'' ''v'']) ''k'' =
     Inr (example_secret ''k'' ''v'') \<and>
   vault_outage (example_vault [example_secret ''k'' ''v'']) = None \<and>
   \<not> (\<exists>x \<in> set (secrets (example_vault [example_secret ''k'' ''v''])). name (properties x) = ''zz'') \<and>
   get_secret (\<lambda>t. ''1970-01-01T00:00:07+00:00'') (ready_app [] [example_secret ''k'' ''v'']) ''k'' =
     ((JObj [(''name'', JStr ''k''), (''value'', JStr ''v''), (''enabled'', JBool True),
             (''created_on'', JStr ''1970-01-01T00:00:07+00:00''), (''updated_on'', JNull)], 200),
      ready_app [] [example_secret ''k'' ''v'']) \<and>
   fst (get_secret (\<lambda>t. ''1970-01-01T00:00:07+00:00'') (ready_app [] [example_secret ''k'' ''v'']) ''zz'') =
     (error_body (secret_not_found ''zz''), 500)"
proof -
  let ?kv = "example_vault [example_secret ''k'' ''v'']"
  let ?s = "ready_app [] [example_secret ''k'' ''v'']"
  have h1: "keyvault_client ?s = Some ?kv"
    by (simp add: ready_app_def)
  have h2: "keyvault_get_secret ?kv ''k'' = Inr (example_secret ''k'' ''v'')"
    by (simp add: keyvault_get_secret_def example_vault_def example_secret_def)
  have h3: "vault_outage ?kv = None"
    by (simp add: example_vault_def)
  have h4: "\<forall>x \<in> set (secrets ?kv). name (properties x) \<noteq> ''zz''"
    by (simp add: example_vault_def example_secret_def)
  have v: "example_secret ''k'' ''v'' =
       \<lparr>properties = \<lparr>name = ''k'', enabled = True, created_on = Some (Timestamp 7),
                       updated_on = None\<rparr>, secret_value = ''v''\<rparr>"
    by (simp add: example_secret_def)
  from get_secret_responses [OF h1, of "''k''" "\<lambda>t. ''1970-01-01T00:00:07+00:00''"] h2
  have a: "get_secret (\<lambda>t. ''1970-01-01T00:00:07+00:00'') ?s ''k'' =
     ((JObj [(''name'', JStr ''k''), (''value'', JStr ''v''), (''enabled'', JBool True),
             (''created_on'', JStr ''1970-01-01T00:00:07+00:00''), (''updated_on'', JNull)], 200), ?s)"
    by (simp add: v)
  from get_secret_responses [OF h1, of "''zz''" "\<lambda>t. ''1970-01-01T00:00:07+00:00''"] h3 h4
  have b: "fst (get_secret (\<lambda>t. ''1970-01-01T00:00:07+00:00'') ?s ''zz'') =
     (error_body (secret_not_found ''zz''), 500)"
    by blast
  from h1 h2 h3 h4 a b show ?thesis by blast
qed

section \<open>Listing secrets\<close>

text \<open>
  Claim C6. The list response is the same for two vaults that differ only in the
  values of their secrets (same outage state, same properties in the same order). A
  200 list response is a count and an array whose entries hold exactly \<open>name\<close> and
  \<open>enabled\<close>, one per secret of the vault. A 200 response to reading one secret does
  hold its value under \<open>value\<close>.
\<close>

theorem list_secrets_hides_values:
  "(keyvault_client s1 = Some kv1 \<and> keyvault_client s2 = Some kv2 \<and>
    vault_outage kv1 = vault_outage kv2 \<and>
    map properties (secrets kv1) = map properties (secrets kv2) \<longrightarrow>
      fst (list_secrets s1) = fst (list_secrets s2)) \<and>
   (snd (fst (list_secrets s)) = 200 \<longrightarrow>
      (\<exists>entries. fst (fst (list_secrets s)) =
           JObj [(''count'', JNum (int (length entries))), (''secrets'', JArr entries)] \<and>
         (\<forall>e \<in> set entries. \<exists>n b. e = JObj [(''name'', JStr n), (''enabled'', JBool b)]))) \<and>
   (keyvault_client s = Some kv \<and> vault_outage kv = None \<longrightarrow>
      fst (list_secrets s) =
        (JObj [(''count'', JNum (int (length (secrets kv)))),
               (''secrets'', JArr (map (\<lambda>x. JObj [(''name'', JStr (name (properties x))),
                                                    (''enabled'', JBool (enabled (properties x)))])
                                        (secrets kv)))], 200)) \<and>
   (snd (fst (get_secret isoformat s secret_name)) = 200 \<longrightarrow>
      (\<exists>kv secret fields. keyvault_client s = Some kv \<and>
         keyvault_get_secret kv secret_name = Inr secret \<and>
         fst (fst (get_secret isoformat s secret_name)) = JObj fields \<and>
         map_of fields ''value'' = Some (JStr (secret_value secret))))"
proof -
  have a: "keyvault_client s1 = Some kv1 \<and> keyvault_client s2 = Some kv2 \<and>
    vault_outage kv1 = vault_outage kv2 \<and>
    map properties (secrets kv1) = map properties (secrets kv2) \<longrightarrow>
      fst (list_secrets s1) = fst (list_secrets s2)"
    by (auto simp: list_secrets_def list_secrets_try_def list_properties_of_secrets_def
          split: option.splits)
  have b: "snd (fst (list_secrets s)) = 200 \<longrightarrow>
      (\<exists>entries. fst (fst (list_secrets s)) =
           JObj [(''count'', JNum (int (length entries))), (''secrets'', JArr entries)] \<and>
         (\<forall>e \<in> set entries. \<exists>n b. e = JObj [(''name'', JStr n), (''enabled'', JBool b)]))"
    by (auto simp: list_secrets_def list_secrets_try_def split: option.splits sum.splits)
  have c: "keyvault_client s = Some kv \<and> vault_outage kv = None \<longrightarrow>
      fst (list_secrets s) =
        (JObj [(''count'', JNum (int (length (secrets kv)))),
               (''secrets'', JArr (map (\<lambda>x. JObj [(''name'', JStr (name (properties x))),
                                                    (''enabled'', JBool (enabled (properties x)))])
                                        (secrets kv)))], 200)"
    by (simp add: list_secrets_def list_secrets_try_def list_properties_of_secrets_def comp_def)
  have d: "snd (fst (get_secret isoformat s secret_name)) = 200 \<longrightarrow>
      (\<exists>kv secret fields. keyvault_client s = Some kv \<and>
         keyvault_get_secret kv secret_name = Inr secret \<and>
         fst (fst (get_secret isoformat s secret_name)) = JObj fields \<and>
         map_of fields ''value'' = Some (JStr (secret_value secret)))"
    by (auto simp: get_secret_def get_secret_try_def split: option.splits sum.splits)
  from a b c d show ?thesis by blast
qed

theorem list_secrets_hides_values_witness:
  "keyvault_client (ready_app [] [example_secret ''k'' ''v'']) =
     Some (example_vault [example_secret ''k'' ''v'']) \<and>
   keyvault_client (ready_app [] [example_secret ''k'' ''other'']) =
     Some (example_vault [example_secret ''k'' ''other'']) \<and>
   vault_outage (example_vault [example_secret ''k'' ''v'']) = None \<and>
   vault_outage (example_vault [example_secret ''k'' ''other'']) = None \<and>
   map properties (secrets (example_vault [example_secret ''k'' ''v''])) =
     map properties (secrets (example_vault [example_secret ''k'' ''other''])) \<and>
   fst (list_secrets (ready_app [] [example_secret ''k'' ''v''])) =
     fst (list_secrets (ready_app [] [example_secret ''k'' ''other''])) \<and>
   fst (list_secrets (ready_app [] [example_secret ''k'' ''v''])) =
     (JObj [(''count'', JNum 1),
            (''secrets'', JArr [JObj [(''name'', JStr ''k''), (''enabled'', JBool True)]])], 200) \<and>
   snd (fst (get_secret (\<lambda>t. ''t'') (ready_app [] [example_secret ''k'' ''v'']) ''k'')) = 200 \<and>
   (\<exists>fields. fst (fst (get_secret (\<lambda>t. ''t'') (ready_app [] [example_secret ''k'' ''v'']) ''k'')) =
        JObj fields \<and> map_of fields ''value'' = Some (JStr ''v''))"
proof -
  let ?kv1 = "example_vault [example_secret ''k'' ''v'']"
  let ?kv2 = "example_vault [example_secret ''k'' ''other'']"
  let ?s1 = "ready_app [] [example_secret ''k'' ''v'']"
  let ?s2 = "ready_app [] [example_secret ''k'' ''other'']"
  have h1: "keyvault_client ?s1 = Some ?kv1" and h2: "keyvault_client ?s2 = Some ?kv2"
    by (simp_all add: ready_app_def)
  have h3: "vault_outage ?kv1 = None" and h4: "vault_outage ?kv2 = None"
    by (simp_all add: example_vault_def)
  have h5: "map properties (secrets ?kv1) = map properties (secrets ?kv2)"
    by (simp add: example_vault_def example_secret_def)
  have h6: "snd (fst (get_secret (\<lambda>t. ''t'') ?s1 ''k'')) = 200"
    by (simp add: get_secret_def get_secret_try_def keyvault_get_secret_def ready_app_def
          example_vault_def example_secret_def)
  have g: "keyvault_get_secret ?kv1 ''k'' = Inr (example_secret ''k'' ''v'')"
    by (simp add: keyvault_get_secret_def example_vault_def example_secret_def)
  note t = list_secrets_hides_values [of ?s1 ?kv1 ?s2 ?kv2 ?s1 ?kv1 "\<lambda>t. ''t''" "''k''"]
  from t h1 h2 h3 h4 h5 have a: "fst (list_secrets ?s1) = fst (list_secrets ?s2)"
    by simp
  from t h1 h3 have b: "fst (list_secrets ?s1) =
     (JObj [(''count'', JNum 1),
            (''secrets'', JArr [JObj [(''name'', JStr ''k''), (''enabled'', JBool True)]])], 200)"
    by (simp add: example_vault_def example_secret_def)
  from t h6 obtain kv secret fields where
      k: "keyvault_client ?s1 = Some kv" "keyvault_get_secret kv ''k'' = Inr secret"
         "fst (fst (get_secret (\<lambda>t. ''t'') ?s1 ''k'')) = JObj fields"
         "map_of fields ''value'' = Some (JStr (secret_value secret))"
    by blast
  from k(1) h1 have "kv = ?kv1" by simp
  with k(2) g have "secret = example_secret ''k'' ''v''" by simp
  then have "secret_value secret = ''v''" by (simp add: example_secret_def)
  with k(3) k(4) have c: "\<exists>fields. fst (fst (get_secret (\<lambda>t. ''t'') ?s1 ''k'')) = JObj fields \<and>
      map_of fields ''value'' = Some (JStr ''v'')"
    by simp
  from h1 h2 h3 h4 h5 h6 a b c show ?thesis by blast
qed

section \<open>Updating an item\<close>

lemma update_item_object:
  assumes "container s = Some c" and "''category'' \<in> fst ` set d"
  shows "update_item_try s item_id (JObj d) =
     (case container_upsert_item c (JObj (AList.update ''id'' (JStr item_id) d)) of
        Inl e \<Rightarrow> Inl e
      | Inr (updated_item, c') \<Rightarrow> Inr ((JObj updated_item, 200), s\<lparr>container := Some c'\<rparr>))"
proof -
  from assms(2) have "d \<noteq> []" by auto
  with assms show ?thesis
    by (simp add: update_item_try_def)
qed

lemma upsert_present:
  assumes "outage c = None" and "\<exists>x \<in> set (documents c). doc_key x = doc_key d"
  shows "container_upsert_item c (JObj d) =
     Inr (d, c\<lparr>documents := map (\<lambda>x. if doc_key x = doc_key d then d else x) (documents c)\<rparr>)"
  using assms by (simp add: container_upsert_item_def)

lemma upsert_absent:
  assumes "outage c = None" and "\<forall>x \<in> set (documents c). doc_key x \<noteq> doc_key d"
  shows "container_upsert_item c (JObj d) = Inr (d, c\<lparr>documents := documents c @ [d]\<rparr>)"
  using assms by (auto simp add: container_upsert_item_def)

lemma filter_replace:
  "filter (\<lambda>x. f x \<noteq> f d) (map (\<lambda>x. if f x = f d then d else x) xs) = filter (\<lambda>x. f x \<noteq> f d) xs"
  by (induction xs) auto

text \<open>
  Claim C4. With the container ready and answering, and a body that is an object with
  a \<open>category\<close> field, \<open>PUT /items/{id}\<close> answers 200 with the body whose \<open>id\<close> is
  the path id (every other field as sent). That item is stored: it is appended when no
  document had its (id, category), and takes the place of the one that had; the other
  documents stay as they were.
\<close>

theorem update_item_upsert:
  assumes "container s = Some c" and "outage c = None" and "''category'' \<in> fst ` set d"
  shows "\<exists>c'. update_item s item_id (JObj d) =
            ((JObj (AList.update ''id'' (JStr item_id) d), 200), s\<lparr>container := Some c'\<rparr>) \<and>
          map_of (AList.update ''id'' (JStr item_id) d) ''id'' = Some (JStr item_id) \<and>
          (\<forall>k. k \<noteq> ''id'' \<longrightarrow> map_of (AList.update ''id'' (JStr item_id) d) k = map_of d k) \<and>
          AList.update ''id'' (JStr item_id) d \<in> set (documents c') \<and>
          (\<forall>x \<in> set (documents c').
              doc_key x = doc_key (AList.update ''id'' (JStr item_id) d) \<longrightarrow>
              x = AList.update ''id'' (JStr item_id) d) \<and>
          filter (\<lambda>x. doc_key x \<noteq> doc_key (AList.update ''id'' (JStr item_id) d)) (documents c') =
            filter (\<lambda>x. doc_key x \<noteq> doc_key (AList.update ''id'' (JStr item_id) d)) (documents c) \<and>
          ((\<forall>x \<in> set (documents c). doc_key x \<noteq> doc_key (AList.update ''id'' (JStr item_id) d)) \<longrightarrow>
              documents c' = documents c @ [AList.update ''id'' (JStr item_id) d]) \<and>
          ((\<exists>x \<in> set (documents c). doc_key x = doc_key (AList.update ''id'' (JStr item_id) d)) \<longrightarrow>
              length (documents c') = length (documents c))"
proof -
  let ?d = "AList.update ''id'' (JStr item_id) d"
  have id: "map_of ?d ''id'' = Some (JStr item_id)"
    by (simp add: update_conv')
  have rest: "\<forall>k. k \<noteq> ''id'' \<longrightarrow> map_of ?d k = map_of d k"
    by (simp add: update_conv')
  show ?thesis
  proof (cases "\<exists>x \<in> set (documents c). doc_key x = doc_key ?d")
    case True
    let ?c = "c\<lparr>documents := map (\<lambda>x. if doc_key x = doc_key ?d then ?d else x) (documents c)\<rparr>"
    from assms True have r: "update_item s item_id (JObj d) = ((JObj ?d, 200), s\<lparr>container := Some ?c\<rparr>)"
      by (simp add: update_item_def update_item_object upsert_present)
    from True have m: "?d \<in> set (documents ?c)" by force
    have u: "\<forall>x \<in> set (documents ?c). doc_key x = doc_key ?d \<longrightarrow> x = ?d" by auto
    have f: "filter (\<lambda>x. doc_key x \<noteq> doc_key ?d) (documents ?c) =
             filter (\<lambda>x. doc_key x \<noteq> doc_key ?d) (documents c)"
      by (simp add: filter_replace)
    have l: "length (documents ?c) = length (documents c)" by simp
    from r id rest m u f l True show ?thesis by blast
  next
    case False
    let ?c = "c\<lparr>documents := documents c @ [?d]\<rparr>"
    from assms False have r: "update_item s item_id (JObj d) = ((JObj ?d, 200), s\<lparr>container := Some ?c\<rparr>)"
      by (simp add: update_item_def update_item_object upsert_absent)
    have m: "?d \<in> set (documents ?c)" by simp
    from False have u: "\<forall>x \<in> set (documents ?c). doc_key x = doc_key ?d \<longrightarrow> x = ?d" by auto
    from False have f: "filter (\<lambda>x. doc_key x \<noteq> doc_key ?d) (documents ?c) =
             filter (\<lambda>x. doc_key x \<noteq> doc_key ?d) (documents c)"
      by simp
    have a: "documents ?c = documents c @ [?d]" by simp
    from r id rest m u f a False show ?thesis by blast
  qed
qed

theorem update_item_upsert_witness:
  "container (ready_app [[(''id'', JStr ''a''), (''category'', JStr ''c''), (''n'', JNum 1)]] []) =
     Some (example_container [[(''id'', JStr ''a''), (''category'', JStr ''c''), (''n'', JNum 1)]]) \<and>
   outage (example_container [[(''id'', JStr ''a''), (''category'', JStr ''c''), (''n'', JNum 1)]]) = None \<and>
   ''category'' \<in> fst ` set [(''id'', JStr ''zzz''), (''category'', JStr ''c''), (''n'', JNum 2)] \<and>
   ''category'' \<in> fst ` set [(''category'', JStr ''c'')] \<and>
   fst (update_item (ready_app [[(''id'', JStr ''a''), (''category'', JStr ''c''), (''n'', JNum 1)]] []) ''a''
          (JObj [(''id'', JStr ''zzz''), (''category'', JStr ''c''), (''n'', JNum 2)])) =
     (JObj [(''id'', JStr ''a''), (''category'', JStr ''c''), (''n'', JNum 2)], 200) \<and>
   fst (update_item (ready_app [[(''id'', JStr ''a''), (''category'', JStr ''c''), (''n'', JNum 1)]] []) ''b''
          (JObj [(''category'', JStr ''c'')])) =
     (JObj [(''category'', JStr ''c''), (''id'', JStr ''b'')], 200)"
proof -
  let ?ds = "[[(''id'', JStr ''a''), (''category'', JStr ''c''), (''n'', JNum 1)]]"
  have h1: "container (ready_app ?ds []) = Some (example_container ?ds)"
    by (simp add: ready_app_def)
  have h2: "outage (example_container ?ds) = None"
    by (simp add: example_container_def)
  have h3: "''category'' \<in> fst ` set [(''id'', JStr ''zzz''), (''category'', JStr ''c''), (''n'', JNum 2)]"
    by simp
  have h4: "''category'' \<in> fst ` set [(''category'', JStr ''c'')]"
    by simp
  from update_item_upsert [OF h1 h2 h3, of "''a''"]
  have a: "fst (update_item (ready_app ?ds []) ''a''
          (JObj [(''id'', JStr ''zzz''), (''category'', JStr ''c''), (''n'', JNum 2)])) =
     (JObj [(''id'', JStr ''a''), (''category'', JStr ''c''), (''n'', JNum 2)], 200)"
    by auto
  from update_item_upsert [OF h1 h2 h4, of "''b''"]
  have b: "fst (update_item (ready_app ?ds []) ''b'' (JObj [(''category'', JStr ''c'')])) =
     (JObj [(''category'', JStr ''c''), (''id'', JStr ''b'')], 200)"
    by auto
  from h1 h2 h3 h4 a b show ?thesis by blast
qed

section \<open>Reading and deleting one item\<close>

lemma read_item_missing:
  assumes "outage c = None" and "\<forall>x \<in> set (documents c). doc_key x \<noteq> point_key i pk"
  shows "container_read_item c i pk = Inl (CosmosResourceNotFoundError ''Resource Not Found'')"
proof -
  from assms(2) have "find (\<lambda>d. doc_key d = point_key i pk) (documents c) = None"
    by (simp add: find_None_iff)
  with assms(1) show ?thesis by (simp add: container_read_item_def)
qed

lemma read_item_found:
  assumes "outage c = None" and "find (\<lambda>d. doc_key d = point_key i pk) (documents c) = Some d"
  shows "container_read_item c i pk = Inr d"
  using assms by (simp add: container_read_item_def)

lemma delete_item_missing:
  assumes "outage c = None" and "\<forall>x \<in> set (documents c). doc_key x \<noteq> point_key i pk"
  shows "container_delete_item c i pk = Inl (CosmosResourceNotFoundError ''Resource Not Found'')"
  using assms by (auto simp add: container_delete_item_def)

lemma delete_item_found:
  assumes "outage c = None" and "find (\<lambda>d. doc_key d = point_key i pk) (documents c) = Some d"
  shows "container_delete_item c i pk =
     Inr (c\<lparr>documents := filter (\<lambda>x. doc_key x \<noteq> point_key i pk) (documents c)\<rparr>)"
proof -
  from assms(2) have "\<exists>x \<in> set (documents c). doc_key x = point_key i pk"
    by (auto simp: find_Some_iff)
  with assms(1) show ?thesis by (simp add: container_delete_item_def)
qed

lemma get_item_ready:
  assumes "container s = Some c" and "cat \<noteq> []"
  shows "get_item_try s item_id (Some cat) =
     (case container_read_item c item_id cat of
        Inl e \<Rightarrow> Inl e
      | Inr d \<Rightarrow> Inr ((JObj d, 200), s))"
  using assms by (simp add: get_item_try_def)

lemma delete_item_ready:
  assumes "container s = Some c" and "cat \<noteq> []"
  shows "delete_item_try s item_id (Some cat) =
     (case container_delete_item c item_id cat of
        Inl e \<Rightarrow> Inl e
      | Inr c' \<Rightarrow> Inr ((JObj [(''message'', JStr ''Item deleted successfully'')], 200),
                      s\<lparr>container := Some c'\<rparr>))"
  using assms by (simp add: delete_item_try_def)

text \<open>
  Claim C5, as stated, fails where the category parameter is present and empty: the
  container holds the item with id \<open>a\<close> and the empty string as category (the point
  read finds it), the request names that category, and both handlers answer 400, not
  200.
\<close>

theorem empty_category_is_rejected:
  "container_read_item (example_container [[(''id'', JStr ''a''), (''category'', JStr [])]]) ''a'' [] =
     Inr [(''id'', JStr ''a''), (''category'', JStr [])] \<and>
   fst (get_item (ready_app [[(''id'', JStr ''a''), (''category'', JStr [])]] []) ''a'' (Some [])) =
     (JObj [(''error'', JStr ''category query parameter is required'')], 400) \<and>
   fst (delete_item (ready_app [[(''id'', JStr ''a''), (''category'', JStr [])]] []) ''a'' (Some [])) =
     (JObj [(''error'', JStr ''category query parameter is required'')], 400)"
  by (simp add: container_read_item_def example_container_def doc_key_def point_key_def
        get_item_def get_item_try_def delete_item_def delete_item_try_def ready_app_def
        error_body_def)

text \<open>
  Claim C5, amended. With the container ready and answering: a category that is
  absent or empty gives 400 from both handlers and leaves the state as it was; a
  non-empty category with no document of that (id, category) gives 404 from both; and
  when the point read finds a document, get answers 200 with it, delete answers 200
  with only a confirmation message, removes the documents of that key, and a second
  delete of the same key answers 404.
\<close>

theorem get_delete_item_cases:
  assumes "container s = Some c" and "outage c = None"
  shows
   "(category = None \<or> category = Some [] \<longrightarrow>
       get_item s item_id category =
         ((error_body ''category query parameter is required'', 400), s) \<and>
       delete_item s item_id category =
         ((error_body ''category query parameter is required'', 400), s)) \<and>
    (\<forall>cat. category = Some cat \<and> cat \<noteq> [] \<and>
           (\<forall>x \<in> set (documents c). doc_key x \<noteq> point_key item_id cat) \<longrightarrow>
       get_item s item_id category = ((error_body ''Item not found'', 404), s) \<and>
       delete_item s item_id category = ((error_body ''Item not found'', 404), s)) \<and>
    (\<forall>cat d. category = Some cat \<and> cat \<noteq> [] \<and>
           find (\<lambda>x. doc_key x = point_key item_id cat) (documents c) = Some d \<longrightarrow>
       get_item s item_id category = ((JObj d, 200), s) \<and>
       delete_item s item_id category =
         ((JObj [(''message'', JStr ''Item deleted successfully'')], 200),
          s\<lparr>container := Some (c\<lparr>documents :=
               filter (\<lambda>x. doc_key x \<noteq> point_key item_id cat) (documents c)\<rparr>)\<rparr>) \<and>
       fst (delete_item (snd (delete_item s item_id category)) item_id category) =
         (error_body ''Item not found'', 404))"
proof -
  have a: "category = None \<or> category = Some [] \<longrightarrow>
       get_item s item_id category =
         ((error_body ''category query parameter is required'', 400), s) \<and>
       delete_item s item_id category =
         ((error_body ''category query parameter is required'', 400), s)"
    using assms(1)
    by (auto simp: get_item_def get_item_try_def delete_item_def delete_item_try_def)
  have b: "get_item s item_id category = ((error_body ''Item not found'', 404), s) \<and>
       delete_item s item_id category = ((error_body ''Item not found'', 404), s)"
    if "category = Some cat" "cat \<noteq> []"
       "\<forall>x \<in> set (documents c). doc_key x \<noteq> point_key item_id cat" for cat
    using that assms
    by (simp add: get_item_def delete_item_def get_item_ready delete_item_ready
          read_item_missing delete_item_missing)
  have c: "get_item s item_id category = ((JObj d, 200), s) \<and>
       delete_item s item_id category =
         ((JObj [(''message'', JStr ''Item deleted successfully'')], 200),
          s\<lparr>container := Some (c\<lparr>documents :=
               filter (\<lambda>x. doc_key x \<noteq> point_key item_id cat) (documents c)\<rparr>)\<rparr>) \<and>
       fst (delete_item (snd (delete_item s item_id category)) item_id category) =
         (error_body ''Item not found'', 404)"
    if h: "category = Some cat" "cat \<noteq> []"
       "find (\<lambda>x. doc_key x = point_key item_id cat) (documents c) = Some d" for cat d
  proof -
    let ?c = "c\<lparr>documents := filter (\<lambda>x. doc_key x \<noteq> point_key item_id cat) (documents c)\<rparr>"
    let ?s = "s\<lparr>container := Some ?c\<rparr>"
    from h assms have g: "get_item s item_id category = ((JObj d, 200), s)"
      by (simp add: get_item_def get_item_ready read_item_found)
    from h assms have e: "delete_item s item_id category =
         ((JObj [(''message'', JStr ''Item deleted successfully'')], 200), ?s)"
      by (simp add: delete_item_def delete_item_ready delete_item_found)
    have k: "container ?s = Some ?c" by simp
    from assms(2) have o: "outage ?c = None" by simp
    have n: "\<forall>x \<in> set (documents ?c). doc_key x \<noteq> point_key item_id cat" by simp
    from h(2) have "delete_item ?s item_id (Some cat) = ((error_body ''Item not found'', 404), ?s)"
      by (simp add: delete_item_def delete_item_ready [OF k] delete_item_missing [OF o n])
    with e h(1) have t: "fst (delete_item (snd (delete_item s item_id category)) item_id category) =
         (error_body ''Item not found'', 404)"
      by simp
    from g e t show ?thesis by blast
  qed
  from a b c show ?thesis by blast
qed

theorem get_delete_item_cases_witness:
  "container (ready_app [[(''id'', JStr ''a''), (''category'', JStr ''c'')]] []) =
     Some (example_container [[(''id'', JStr ''a''), (''category'', JStr ''c'')]]) \<and>
   outage (example_container [[(''id'', JStr ''a''), (''category'', JStr ''c'')]]) = None \<and>
   \<not> (\<exists>x \<in> set (documents (example_container [[(''id'', JStr ''a''), (''category'', JStr ''c'')]])).
         doc_key x = point_key ''b'' ''c'') \<and>
   find (\<lambda>x. doc_key x = point_key ''a'' ''c'')
     (documents (example_container [[(''id'', JStr ''a''), (''category'', JStr ''c'')]])) =
     Some [(''id'', JStr ''a''), (''category'', JStr ''c'')] \<and>
   fst (get_item (ready_app [[(''id'', JStr ''a''), (''category'', JStr ''c'')]] []) ''a'' None) =
     (error_body ''category query parameter is required'', 400) \<and>
   fst (delete_item (ready_app [[(''id'', JStr ''a''), (''category'', JStr ''c'')]] []) ''b'' (Some ''c'')) =
     (error_body ''Item not found'', 404) \<and>
   fst (get_item (ready_app [[(''id'', JStr ''a''), (''category'', JStr ''c'')]] []) ''a'' (Some ''c'')) =
     (JObj [(''id'', JStr ''a''), (''category'', JStr ''c'')], 200) \<and>
   fst (delete_item (ready_app [[(''id'', JStr ''a''), (''category'', JStr ''c'')]] []) ''a'' (Some ''c'')) =
     (JObj [(''message'', JStr ''Item deleted successfully'')], 200) \<and>
   fst (delete_item (snd (delete_item (ready_app [[(''id'', JStr ''a''), (''category'', JStr ''c'')]] [])
                            ''a'' (Some ''c''))) ''a'' (Some ''c'')) =
     (error_body ''Item not found'', 404)"
proof -
  let ?ds = "[[(''id'', JStr ''a''), (''category'', JStr ''c'')]]"
  have h1: "container (ready_app ?ds []) = Some (example_container ?ds)"
    by (simp add: ready_app_def)
  have h2: "outage (example_container ?ds) = None"
    by (simp add: example_container_def)
  have h3: "\<forall>x \<in> set (documents (example_container ?ds)). doc_key x \<noteq> point_key ''b'' ''c''"
    by (simp add: example_container_def doc_key_def point_key_def)
  have h4: "find (\<lambda>x. doc_key x = point_key ''a'' ''c'') (documents (example_container ?ds)) =
      Some [(''id'', JStr ''a''), (''category'', JStr ''c'')]"
    by (simp add: example_container_def doc_key_def point_key_def)
  from get_delete_item_cases [OF h1 h2, of None "''a''"]
  have a: "fst (get_item (ready_app ?ds []) ''a'' None) =
     (error_body ''category query parameter is required'', 400)"
    by simp
  from get_delete_item_cases [OF h1 h2, of "Some ''c''" "''b''"] h3
  have b: "fst (delete_item (ready_app ?ds []) ''b'' (Some ''c'')) = (error_body ''Item not found'', 404)"
    by simp
  have ne: "''c'' \<noteq> []" by simp
  from get_delete_item_cases [OF h1 h2, of "Some ''c''" "''a''"] ne h4
  have c1: "get_item (ready_app ?ds []) ''a'' (Some ''c'') =
       ((JObj [(''id'', JStr ''a''), (''category'', JStr ''c'')], 200), ready_app ?ds [])"
    and c2: "delete_item (ready_app ?ds []) ''a'' (Some ''c'') =
       ((JObj [(''message'', JStr ''Item deleted successfully'')], 200),
        (ready_app ?ds [])\<lparr>container := Some ((example_container ?ds)\<lparr>documents :=
           filter (\<lambda>x. doc_key x \<noteq> point_key ''a'' ''c'') (documents (example_container ?ds))\<rparr>)\<rparr>)"
    and c3: "fst (delete_item (snd (delete_item (ready_app ?ds []) ''a'' (Some ''c''))) ''a'' (Some ''c'')) =
       (error_body ''Item not found'', 404)"
    by blast+
  from c1 have c1': "fst (get_item (ready_app ?ds []) ''a'' (Some ''c'')) =
       (JObj [(''id'', JStr ''a''), (''category'', JStr ''c'')], 200)"
    by simp
  from c2 have c2': "fst (delete_item (ready_app ?ds []) ''a'' (Some ''c'')) =
       (JObj [(''message'', JStr ''Item deleted successfully'')], 200)"
    by simp
  note c = c1' c2' c3
  from h1 h2 h3 h4 a b c show ?thesis by blast
qed

section \<open>Creating an item from an object body\<close>

text \<open>
  What \<open>create_item\<close> does with a body that is absent or an object: 400 when a field
  is missing, 409 and an unchanged state when the key exists, 201 with the item
  appended otherwise.
\<close>

lemma create_item_object:
  assumes "container s = Some c" and "''id'' \<in> fst ` set d" and "''category'' \<in> fst ` set d"
  shows "create_item_try s (JObj d) =
     (case container_create_item c (JObj d) of
        Inl e \<Rightarrow> Inl e
      | Inr (created_item, c') \<Rightarrow> Inr ((JObj created_item, 201), s\<lparr>container := Some c'\<rparr>))"
proof -
  from assms(2) have "d \<noteq> []" by auto
  with assms show ?thesis
    by (simp add: create_item_try_def)
qed

lemma create_item_object_missing_field:
  assumes "container s = Some c" and "''id'' \<notin> fst ` set d \<or> ''category'' \<notin> fst ` set d"
  shows "snd (fst (create_item s (JObj d))) = 400 \<and> snd (create_item s (JObj d)) = s"
  using assms
  by (cases "d = []"; cases "''id'' \<in> fst ` set d")
     (simp_all add: create_item_def create_item_try_def)

lemma create_item_absent_body:
  assumes "container s = Some c"
  shows "create_item s JNull = ((error_body ''Request body is required'', 400), s)"
  using assms by (simp add: create_item_def create_item_try_def)

lemma create_item_conflict:
  assumes "container s = Some c" and "outage c = None"
    and "''id'' \<in> fst ` set d" and "''category'' \<in> fst ` set d"
    and "\<exists>x \<in> set (documents c). doc_key x = doc_key d"
  shows "create_item s (JObj d) = ((error_body ''Item already exists'', 409), s)"
  using assms by (simp add: create_item_def create_item_object container_create_item_def)

lemma create_item_created:
  assumes "container s = Some c" and "outage c = None"
    and "''id'' \<in> fst ` set d" and "''category'' \<in> fst ` set d"
    and "\<forall>x \<in> set (documents c). doc_key x \<noteq> doc_key d"
  shows "create_item s (JObj d) =
     ((JObj d, 201), s\<lparr>container := Some (c\<lparr>documents := documents c @ [d]\<rparr>)\<rparr>)"
  using assms by (auto simp add: create_item_def create_item_object container_create_item_def)

lemma create_item_201:
  assumes "snd (fst (create_item s (JObj d))) = 201"
  shows "\<exists>c. container s = Some c \<and> outage c = None \<and>
             (\<forall>x \<in> set (documents c). doc_key x \<noteq> doc_key d) \<and>
             create_item s (JObj d) =
               ((JObj d, 201), s\<lparr>container := Some (c\<lparr>documents := documents c @ [d]\<rparr>)\<rparr>)"
  using assms
  by (auto simp: create_item_def create_item_try_def container_create_item_def error_body_def
        split: option.splits if_splits sum.splits bool.splits exc.splits)

lemma find_appended:
  assumes "\<forall>x \<in> set xs. \<not> P x" and "P d"
  shows "find P (xs @ [d]) = Some d"
  using assms by (induction xs) auto

section \<open>Create, then get\<close>

text \<open>
  Claim C9, as stated, fails for an item whose category is the empty string: the
  create answers 201 (it only asks for the field to be present), and the get with the
  same id and category answers 400 (it asks for a non-empty category).
\<close>

theorem empty_category_created_but_not_readable:
  "fst (create_item (ready_app [] []) (JObj [(''id'', JStr ''a''), (''category'', JStr [])])) =
     (JObj [(''id'', JStr ''a''), (''category'', JStr [])], 201) \<and>
   fst (get_item (snd (create_item (ready_app [] []) (JObj [(''id'', JStr ''a''), (''category'', JStr [])])))
          ''a'' (Some [])) =
     (JObj [(''error'', JStr ''category query parameter is required'')], 400)"
  by (simp add: create_item_def create_item_try_def container_create_item_def ready_app_def
        example_container_def get_item_def get_item_try_def error_body_def)

text \<open>
  Claim C9, amended. For a body whose \<open>id\<close> is a string and whose \<open>category\<close> is a
  non-empty string, if \<open>POST /items\<close> answers 201 then the body returned is the one
  sent and \<open>GET /items/{id}?category=C\<close> on the state the create left answers 200
  with that same item, leaving the state unchanged.
\<close>

theorem create_then_get_round_trip:
  assumes "map_of d ''id'' = Some (JStr item_id)"
    and "map_of d ''category'' = Some (JStr cat)"
    and "cat \<noteq> []"
    and "snd (fst (create_item s (JObj d))) = 201"
  shows "fst (create_item s (JObj d)) = (JObj d, 201) \<and>
         get_item (snd (create_item s (JObj d))) item_id (Some cat) =
           ((JObj d, 200), snd (create_item s (JObj d)))"
proof -
  from create_item_201 [OF assms(4)] obtain c where
      c: "container s = Some c" "outage c = None"
         "\<forall>x \<in> set (documents c). doc_key x \<noteq> doc_key d"
         "create_item s (JObj d) =
            ((JObj d, 201), s\<lparr>container := Some (c\<lparr>documents := documents c @ [d]\<rparr>)\<rparr>)"
    by blast
  let ?c = "c\<lparr>documents := documents c @ [d]\<rparr>"
  let ?s = "s\<lparr>container := Some ?c\<rparr>"
  from assms(1,2) have k: "doc_key d = point_key item_id cat"
    by (simp add: doc_key_def point_key_def)
  with c(3) have "find (\<lambda>x. doc_key x = point_key item_id cat) (documents c @ [d]) = Some d"
    by (intro find_appended) simp_all
  then have f: "find (\<lambda>x. doc_key x = point_key item_id cat) (documents ?c) = Some d"
    by simp
  have h: "container ?s = Some ?c" by simp
  from c(2) have o: "outage ?c = None" by simp
  from assms(3) have "get_item ?s item_id (Some cat) = ((JObj d, 200), ?s)"
    by (simp add: get_item_def get_item_ready [OF h] read_item_found [OF o f])
  with c(4) show ?thesis by simp
qed

theorem create_then_get_round_trip_witness:
  "map_of [(''id'', JStr ''a''), (''category'', JStr ''c''), (''n'', JNum 3)] ''id'' = Some (JStr ''a'') \<and>
   map_of [(''id'', JStr ''a''), (''category'', JStr ''c''), (''n'', JNum 3)] ''category'' = Some (JStr ''c'') \<and>
   ''c'' \<noteq> [] \<and>
   snd (fst (create_item (ready_app [[(''id'', JStr ''b''), (''category'', JStr ''c'')]] [])
               (JObj [(''id'', JStr ''a''), (''category'', JStr ''c''), (''n'', JNum 3)]))) = 201 \<and>
   fst (get_item (snd (create_item (ready_app [[(''id'', JStr ''b''), (''category'', JStr ''c'')]] [])
                         (JObj [(''id'', JStr ''a''), (''category'', JStr ''c''), (''n'', JNum 3)])))
          ''a'' (Some ''c'')) =
     (JObj [(''id'', JStr ''a''), (''category'', JStr ''c''), (''n'', JNum 3)], 200)"
proof -
  let ?d = "[(''id'', JStr ''a''), (''category'', JStr ''c''), (''n'', JNum 3)]"
  let ?s = "ready_app [[(''id'', JStr ''b''), (''category'', JStr ''c'')]] []"
  have h1: "map_of ?d ''id'' = Some (JStr ''a'')" by simp
  have h2: "map_of ?d ''category'' = Some (JStr ''c'')" by simp
  have h3: "''c'' \<noteq> []" by simp
  have h4: "snd (fst (create_item ?s (JObj ?d))) = 201"
    by (simp add: create_item_def create_item_try_def container_create_item_def ready_app_def
          example_container_def doc_key_def)
  from create_then_get_round_trip [OF h1 h2 h3 h4]
  have "fst (get_item (snd (create_item ?s (JObj ?d))) ''a'' (Some ''c'')) = (JObj ?d, 200)"
    by simp
  with h1 h2 h3 h4 show ?thesis by blast
qed

section \<open>Initialising the document client\<close>

text \<open>
  The two create-if-absent calls on an account that raises no fault: they succeed,
  leave an existing database or container as it is, and otherwise add it.
\<close>

lemma create_database_ok:
  assumes "database_fault acct = None"
  shows "\<exists>acct1. create_database_if_not_exists acct db = Inr acct1 \<and>
           connect_fault acct1 = connect_fault acct \<and>
           database_fault acct1 = database_fault acct \<and>
           container_fault acct1 = container_fault acct \<and>
           (case map_of (databases acct) db of
              Some cs \<Rightarrow> acct1 = acct
            | None \<Rightarrow> map_of (databases acct1) db = Some [])"
  using assms
  by (auto simp: create_database_if_not_exists_def map_of_append map_add_def split: option.splits)

lemma create_container_ok:
  assumes "container_fault acct = None" and "map_of (databases acct) db = Some cs"
  shows "\<exists>c acct2. create_container_if_not_exists acct db cid path tp = Inr (c, acct2) \<and>
           connect_fault acct2 = connect_fault acct \<and>
           database_fault acct2 = database_fault acct \<and>
           container_fault acct2 = container_fault acct \<and>
           (\<exists>cs2. map_of (databases acct2) db = Some cs2 \<and> map_of cs2 cid = Some c) \<and>
           (case map_of cs cid of
              Some c0 \<Rightarrow> c = c0 \<and> acct2 = acct
            | None \<Rightarrow> c = \<lparr>partition_key_path = path, offer_throughput = tp,
                              documents = [], outage = None\<rparr>)"
  using assms
  by (auto simp: create_container_if_not_exists_def Let_def update_conv' map_of_append map_add_def
        split: option.splits)

lemma initialize_cosmos_try_failure:
  assumes "initialize_cosmos_try env acct s = Inl (e, s', acct')"
  shows "container s' = container s \<and> keyvault_client s' = keyvault_client s"
  using assms
  by (auto simp: initialize_cosmos_try_def Let_def logging_def
        split: option.splits if_splits sum.splits prod.splits)

lemma initialize_cosmos_try_fault:
  assumes "COSMOS_ENDPOINT env = Some ep" and "ep \<noteq> []"
    and "connect_fault acct \<noteq> None \<or> database_fault acct \<noteq> None \<or> container_fault acct \<noteq> None"
  shows "\<exists>r. initialize_cosmos_try env acct s = Inl r"
proof (cases "connect_fault acct = None \<and> database_fault acct = None")
  case True
  with assms(3) obtain m where m: "container_fault acct = Some m" by auto
  from True create_database_ok [of acct "DATABASE_NAME env"] obtain acct1 where
      a: "create_database_if_not_exists acct (DATABASE_NAME env) = Inr acct1"
         "container_fault acct1 = container_fault acct"
    by blast
  from a(2) m have "create_container_if_not_exists acct1 (DATABASE_NAME env) (CONTAINER_NAME env)
        ''/category'' 400 = Inl (HttpResponseError m)"
    by (simp add: create_container_if_not_exists_def)
  with assms(1,2) True a(1) show ?thesis
    by (simp add: initialize_cosmos_try_def Let_def CosmosClient_def)
next
  case False
  with assms(1,2) show ?thesis
    by (auto simp: initialize_cosmos_try_def Let_def CosmosClient_def
          create_database_if_not_exists_def split: option.splits)
qed

lemma initialize_cosmos_try_success:
  assumes "COSMOS_ENDPOINT env = Some ep" and "ep \<noteq> []"
    and "connect_fault acct = None" and "database_fault acct = None"
    and "container_fault acct = None"
  shows "\<exists>s' acct' cs c.
      initialize_cosmos_try env acct s = Inr (s', acct') \<and>
      container s' = Some c \<and>
      connect_fault acct' = None \<and> database_fault acct' = None \<and> container_fault acct' = None \<and>
      map_of (databases acct') (DATABASE_NAME env) = Some cs \<and>
      map_of cs (CONTAINER_NAME env) = Some c \<and>
      (\<forall>cs0 c0. map_of (databases acct) (DATABASE_NAME env) = Some cs0 \<and>
                map_of cs0 (CONTAINER_NAME env) = Some c0 \<longrightarrow> c = c0 \<and> acct' = acct) \<and>
      ((\<forall>cs0. map_of (databases acct) (DATABASE_NAME env) = Some cs0 \<longrightarrow>
              map_of cs0 (CONTAINER_NAME env) = None) \<longrightarrow>
         c = \<lparr>partition_key_path = ''/category'', offer_throughput = 400,
               documents = [], outage = None\<rparr>)"
proof -
  let ?db = "DATABASE_NAME env" and ?cn = "CONTAINER_NAME env"
  from assms(4) create_database_ok [of acct ?db] obtain acct1 where
      a: "create_database_if_not_exists acct ?db = Inr acct1"
         "connect_fault acct1 = connect_fault acct"
         "database_fault acct1 = database_fault acct"
         "container_fault acct1 = container_fault acct"
         "case map_of (databases acct) ?db of
            Some cs \<Rightarrow> acct1 = acct
          | None \<Rightarrow> map_of (databases acct1) ?db = Some []"
    by blast
  from a(5) obtain cs1 where cs1: "map_of (databases acct1) ?db = Some cs1"
      "\<forall>cs0. map_of (databases acct) ?db = Some cs0 \<longrightarrow> acct1 = acct \<and> cs1 = cs0"
      "map_of (databases acct) ?db = None \<longrightarrow> cs1 = []"
    by (cases "map_of (databases acct) ?db") auto
  from a(4) assms(5) have cf: "container_fault acct1 = None" by simp
  from create_container_ok [OF cf cs1(1), of ?cn "''/category''" 400] obtain c acct2 where
      b: "create_container_if_not_exists acct1 ?db ?cn ''/category'' 400 = Inr (c, acct2)"
         "connect_fault acct2 = connect_fault acct1"
         "database_fault acct2 = database_fault acct1"
         "container_fault acct2 = container_fault acct1"
         "\<exists>cs2. map_of (databases acct2) ?db = Some cs2 \<and> map_of cs2 ?cn = Some c"
         "case map_of cs1 ?cn of
            Some c0 \<Rightarrow> c = c0 \<and> acct2 = acct1
          | None \<Rightarrow> c = \<lparr>partition_key_path = ''/category'', offer_throughput = 400,
                            documents = [], outage = None\<rparr>"
    by blast
  from b(5) obtain cs2 where cs2: "map_of (databases acct2) ?db = Some cs2" "map_of cs2 ?cn = Some c"
    by blast
  let ?s = "logging INFO (''Container '' @ quoted ?cn @ '' ready'')
              ((logging INFO (''Database '' @ quoted ?db @ '' ready'')
                 ((logging INFO (''Connecting to Cosmos DB at '' @ ep) s)
                    \<lparr>cosmos_client := Some ep, database := Some ?db\<rparr>))
               \<lparr>container := Some c\<rparr>)"
  from assms(1,2,3) a(1) b(1) have r: "initialize_cosmos_try env acct s = Inr (?s, acct2)"
    by (simp add: initialize_cosmos_try_def Let_def CosmosClient_def)
  have k: "container ?s = Some c" by (simp add: logging_def)
  from a b assms have f: "connect_fault acct2 = None" "database_fault acct2 = None"
      "container_fault acct2 = None"
    by simp_all
  have e: "\<forall>cs0 c0. map_of (databases acct) ?db = Some cs0 \<and> map_of cs0 ?cn = Some c0 \<longrightarrow>
             c = c0 \<and> acct2 = acct"
    using cs1(2) b(6) by auto
  have n: "(\<forall>cs0. map_of (databases acct) ?db = Some cs0 \<longrightarrow> map_of cs0 ?cn = None) \<longrightarrow>
       c = \<lparr>partition_key_path = ''/category'', offer_throughput = 400,
             documents = [], outage = None\<rparr>"
  proof
    assume h: "\<forall>cs0. map_of (databases acct) ?db = Some cs0 \<longrightarrow> map_of cs0 ?cn = None"
    have "map_of cs1 ?cn = None"
    proof (cases "map_of (databases acct) ?db")
      case None
      with cs1(3) show ?thesis by simp
    next
      case (Some cs0)
      with cs1(2) h show ?thesis by simp
    qed
    with b(6) show "c = \<lparr>partition_key_path = ''/category'', offer_throughput = 400,
             documents = [], outage = None\<rparr>"
      by simp
  qed
  from r k f cs2 e n show ?thesis by blast
qed

text \<open>
  Claim C8. \<open>initialize_cosmos_client\<close> always returns a boolean (it is a total
  function: the \<^verbatim>\<open>try\<close> block's exceptions are all caught). With the endpoint unset
  or empty it returns failure at once, the account untouched. With an endpoint, it
  returns failure whenever the account raises on connecting or on creating the
  database or the container. Every failure leaves \<open>container\<close> as it was (absent at
  module load) and ends the log with an error entry. With an endpoint and no fault it
  returns success: afterwards the account holds the database and in it the container,
  which is the one the handle is bound to; a container that was already there is kept
  and the account is unchanged, a new one has partition key path \<open>/category\<close> and
  throughput 400; and running the initialiser again succeeds with the same container
  and the same account.
\<close>

theorem initialize_cosmos_client_outcomes:
  "(COSMOS_ENDPOINT env = None \<or> COSMOS_ENDPOINT env = Some [] \<longrightarrow>
      initialize_cosmos_client env acct s =
        (False,
         logging ERROR (''Failed to initialize Cosmos DB client: '' @
                        ''COSMOS_ENDPOINT environment variable is not set'') s,
         acct)) \<and>
   (\<forall>ep. COSMOS_ENDPOINT env = Some ep \<and> ep \<noteq> [] \<and>
         (connect_fault acct \<noteq> None \<or> database_fault acct \<noteq> None \<or>
          container_fault acct \<noteq> None) \<longrightarrow>
      \<not> fst (initialize_cosmos_client env acct s)) \<and>
   (\<not> fst (initialize_cosmos_client env acct s) \<longrightarrow>
      container (fst (snd (initialize_cosmos_client env acct s))) = container s \<and>
      (\<exists>m. last (logger (fst (snd (initialize_cosmos_client env acct s)))) =
             (ERROR, ''Failed to initialize Cosmos DB client: '' @ m))) \<and>
   (\<forall>ep. COSMOS_ENDPOINT env = Some ep \<and> ep \<noteq> [] \<and>
         connect_fault acct = None \<and> database_fault acct = None \<and>
         container_fault acct = None \<longrightarrow>
      fst (initialize_cosmos_client env acct s) \<and>
      (\<exists>cs c.
         map_of (databases (snd (snd (initialize_cosmos_client env acct s)))) (DATABASE_NAME env) =
           Some cs \<and>
         map_of cs (CONTAINER_NAME env) = Some c \<and>
         container (fst (snd (initialize_cosmos_client env acct s))) = Some c \<and>
         (\<forall>cs0 c0. map_of (databases acct) (DATABASE_NAME env) = Some cs0 \<and>
                   map_of cs0 (CONTAINER_NAME env) = Some c0 \<longrightarrow>
            c = c0 \<and> snd (snd (initialize_cosmos_client env acct s)) = acct) \<and>
         ((\<forall>cs0. map_of (databases acct) (DATABASE_NAME env) = Some cs0 \<longrightarrow>
                 map_of cs0 (CONTAINER_NAME env) = None) \<longrightarrow>
            c = \<lparr>partition_key_path = ''/category'', offer_throughput = 400,
                  documents = [], outage = None\<rparr>) \<and>
         initialize_cosmos_client env (snd (snd (initialize_cosmos_client env acct s)))
             (fst (snd (initialize_cosmos_client env acct s))) =
           (True,
            fst (snd (initialize_cosmos_client env (snd (snd (initialize_cosmos_client env acct s)))
                        (fst (snd (initialize_cosmos_client env acct s))))),
            snd (snd (initialize_cosmos_client env acct s))) \<and>
         container (fst (snd (initialize_cosmos_client env
                                 (snd (snd (initialize_cosmos_client env acct s)))
                                 (fst (snd (initialize_cosmos_client env acct s)))))) = Some c))"
proof -
  let ?db = "DATABASE_NAME env" and ?cn = "CONTAINER_NAME env"
  let ?r = "initialize_cosmos_client env acct s"
  have p1: "COSMOS_ENDPOINT env = None \<or> COSMOS_ENDPOINT env = Some [] \<longrightarrow>
      ?r = (False,
         logging ERROR (''Failed to initialize Cosmos DB client: '' @
                        ''COSMOS_ENDPOINT environment variable is not set'') s,
         acct)"
    by (auto simp: initialize_cosmos_client_def initialize_cosmos_try_def)
  have p2: "\<not> fst ?r" if "COSMOS_ENDPOINT env = Some ep" "ep \<noteq> []"
      "connect_fault acct \<noteq> None \<or> database_fault acct \<noteq> None \<or> container_fault acct \<noteq> None"
    for ep
  proof -
    from initialize_cosmos_try_fault [OF that] obtain r where
        "initialize_cosmos_try env acct s = Inl r"
      by blast
    then show ?thesis
      by (cases r) (simp add: initialize_cosmos_client_def)
  qed
  have p3: "container (fst (snd ?r)) = container s \<and>
      (\<exists>m. last (logger (fst (snd ?r))) = (ERROR, ''Failed to initialize Cosmos DB client: '' @ m))"
    if "\<not> fst ?r"
  proof (cases "initialize_cosmos_try env acct s")
    case (Inl x)
    obtain e s' acct' where x: "x = (e, s', acct')" by (cases x) auto
    from Inl x initialize_cosmos_try_failure [of env acct s e s' acct']
    have "container s' = container s" by simp
    with Inl x show ?thesis
      by (auto simp: initialize_cosmos_client_def logging_def)
  next
    case (Inr y)
    with that show ?thesis
      by (cases y) (simp add: initialize_cosmos_client_def)
  qed
  have p4: "fst ?r \<and>
      (\<exists>cs c.
         map_of (databases (snd (snd ?r))) ?db = Some cs \<and>
         map_of cs ?cn = Some c \<and>
         container (fst (snd ?r)) = Some c \<and>
         (\<forall>cs0 c0. map_of (databases acct) ?db = Some cs0 \<and> map_of cs0 ?cn = Some c0 \<longrightarrow>
            c = c0 \<and> snd (snd ?r) = acct) \<and>
         ((\<forall>cs0. map_of (databases acct) ?db = Some cs0 \<longrightarrow> map_of cs0 ?cn = None) \<longrightarrow>
            c = \<lparr>partition_key_path = ''/category'', offer_throughput = 400,
                  documents = [], outage = None\<rparr>) \<and>
         initialize_cosmos_client env (snd (snd ?r)) (fst (snd ?r)) =
           (True, fst (snd (initialize_cosmos_client env (snd (snd ?r)) (fst (snd ?r)))),
            snd (snd ?r)) \<and>
         container (fst (snd (initialize_cosmos_client env (snd (snd ?r)) (fst (snd ?r))))) = Some c)"
    if h: "COSMOS_ENDPOINT env = Some ep" "ep \<noteq> []" "connect_fault acct = None"
      "database_fault acct = None" "container_fault acct = None"
    for ep
  proof -
    from initialize_cosmos_try_success [OF h, of s] obtain s' acct' cs c where
        a: "initialize_cosmos_try env acct s = Inr (s', acct')"
           "container s' = Some c"
           "connect_fault acct' = None" "database_fault acct' = None" "container_fault acct' = None"
           "map_of (databases acct') ?db = Some cs"
           "map_of cs ?cn = Some c"
           "\<forall>cs0 c0. map_of (databases acct) ?db = Some cs0 \<and> map_of cs0 ?cn = Some c0 \<longrightarrow>
               c = c0 \<and> acct' = acct"
           "(\<forall>cs0. map_of (databases acct) ?db = Some cs0 \<longrightarrow> map_of cs0 ?cn = None) \<longrightarrow>
               c = \<lparr>partition_key_path = ''/category'', offer_throughput = 400,
                     documents = [], outage = None\<rparr>"
      by blast
    from a(1) have r: "?r = (True, s', acct')"
      by (simp add: initialize_cosmos_client_def)
    from initialize_cosmos_try_success [OF h(1,2) a(3,4,5), of s'] obtain s'' acct'' cs' c' where
        b: "initialize_cosmos_try env acct' s' = Inr (s'', acct'')"
           "container s'' = Some c'"
           "\<forall>cs0 c0. map_of (databases acct') ?db = Some cs0 \<and> map_of cs0 ?cn = Some c0 \<longrightarrow>
               c' = c0 \<and> acct'' = acct'"
      by blast
    from b(3) a(6,7) have same: "c' = c" "acct'' = acct'" by blast+
    from b(1) same have r2: "initialize_cosmos_client env acct' s' = (True, s'', acct')"
      by (simp add: initialize_cosmos_client_def)
    from b(2) same(1) have k2: "container s'' = Some c" by simp
    have "\<exists>cs c.
         map_of (databases acct') ?db = Some cs \<and>
         map_of cs ?cn = Some c \<and>
         container s' = Some c \<and>
         (\<forall>cs0 c0. map_of (databases acct) ?db = Some cs0 \<and> map_of cs0 ?cn = Some c0 \<longrightarrow>
            c = c0 \<and> acct' = acct) \<and>
         ((\<forall>cs0. map_of (databases acct) ?db = Some cs0 \<longrightarrow> map_of cs0 ?cn = None) \<longrightarrow>
            c = \<lparr>partition_key_path = ''/category'', offer_throughput = 400,
                  documents = [], outage = None\<rparr>) \<and>
         (True, s'', acct') = (True, s'', acct') \<and>
         container s'' = Some c"
      using a(6) a(7) a(2) a(8) a(9) k2 by (intro exI [of _ cs] exI [of _ c] conjI refl)
    then show ?thesis
      by (simp only: r r2 fst_conv snd_conv simp_thms)
  qed
  show ?thesis
  proof (intro conjI)
    show "COSMOS_ENDPOINT env = None \<or> COSMOS_ENDPOINT env = Some [] \<longrightarrow>
      ?r = (False,
         logging ERROR (''Failed to initialize Cosmos DB client: '' @
                        ''COSMOS_ENDPOINT environment variable is not set'') s,
         acct)"
      by (rule p1)
  next
    show "\<forall>ep. COSMOS_ENDPOINT env = Some ep \<and> ep \<noteq> [] \<and>
         (connect_fault acct \<noteq> None \<or> database_fault acct \<noteq> None \<or>
          container_fault acct \<noteq> None) \<longrightarrow> \<not> fst ?r"
      using p2 by blast
  next
    show "\<not> fst ?r \<longrightarrow>
      container (fst (snd ?r)) = container s \<and>
      (\<exists>m. last (logger (fst (snd ?r))) = (ERROR, ''Failed to initialize Cosmos DB client: '' @ m))"
      using p3 by (intro impI)
  next
    show "\<forall>ep. COSMOS_ENDPOINT env = Some ep \<and> ep \<noteq> [] \<and>
         connect_fault acct = None \<and> database_fault acct = None \<and>
         container_fault acct = None \<longrightarrow>
      fst ?r \<and>
      (\<exists>cs c.
         map_of (databases (snd (snd ?r))) ?db = Some cs \<and>
         map_of cs ?cn = Some c \<and>
         container (fst (snd ?r)) = Some c \<and>
         (\<forall>cs0 c0. map_of (databases acct) ?db = Some cs0 \<and> map_of cs0 ?cn = Some c0 \<longrightarrow>
            c = c0 \<and> snd (snd ?r) = acct) \<and>
         ((\<forall>cs0. map_of (databases acct) ?db = Some cs0 \<longrightarrow> map_of cs0 ?cn = None) \<longrightarrow>
            c = \<lparr>partition_key_path = ''/category'', offer_throughput = 400,
                  documents = [], outage = None\<rparr>) \<and>
         initialize_cosmos_client env (snd (snd ?r)) (fst (snd ?r)) =
           (True, fst (snd (initialize_cosmos_client env (snd (snd ?r)) (fst (snd ?r)))),
            snd (snd ?r)) \<and>
         container (fst (snd (initialize_cosmos_client env (snd (snd ?r)) (fst (snd ?r))))) = Some c)"
    proof (intro allI impI)
      fix ep
      assume "COSMOS_ENDPOINT env = Some ep \<and> ep \<noteq> [] \<and>
         connect_fault acct = None \<and> database_fault acct = None \<and> container_fault acct = None"
      then have "COSMOS_ENDPOINT env = Some ep" "ep \<noteq> []" "connect_fault acct = None"
          "database_fault acct = None" "container_fault acct = None"
        by simp_all
      then show "fst ?r \<and>
      (\<exists>cs c.
         map_of (databases (snd (snd ?r))) ?db = Some cs \<and>
         map_of cs ?cn = Some c \<and>
         container (fst (snd ?r)) = Some c \<and>
         (\<forall>cs0 c0. map_of (databases acct) ?db = Some cs0 \<and> map_of cs0 ?cn = Some c0 \<longrightarrow>
            c = c0 \<and> snd (snd ?r) = acct) \<and>
         ((\<forall>cs0. map_of (databases acct) ?db = Some cs0 \<longrightarrow> map_of cs0 ?cn = None) \<longrightarrow>
            c = \<lparr>partition_key_path = ''/category'', offer_throughput = 400,
                  documents = [], outage = None\<rparr>) \<and>
         initialize_cosmos_client env (snd (snd ?r)) (fst (snd ?r)) =
           (True, fst (snd (initialize_cosmos_client env (snd (snd ?r)) (fst (snd ?r)))),
            snd (snd ?r)) \<and>
         container (fst (snd (initialize_cosmos_client env (snd (snd ?r)) (fst (snd ?r))))) = Some c)"
        by (rule p4)
    qed
  qed
qed

theorem initialize_cosmos_client_outcomes_witness:
  "COSMOS_ENDPOINT Map.empty = None \<and>
   \<not> fst (initialize_cosmos_client Map.empty empty_account initial_app) \<and>
   COSMOS_ENDPOINT example_environ = Some ''https://docs.example'' \<and>
   ''https://docs.example'' \<noteq> [] \<and>
   database_fault forbidden_account \<noteq> None \<and>
   \<not> fst (initialize_cosmos_client example_environ forbidden_account initial_app) \<and>
   container (fst (snd (initialize_cosmos_client example_environ forbidden_account initial_app))) = None \<and>
   connect_fault empty_account = None \<and> database_fault empty_account = None \<and>
   container_fault empty_account = None \<and>
   fst (initialize_cosmos_client example_environ empty_account initial_app) \<and>
   container (fst (snd (initialize_cosmos_client example_environ empty_account initial_app))) =
     Some \<lparr>partition_key_path = ''/category'', offer_throughput = 400,
            documents = [], outage = None\<rparr>"
proof -
  let ?ep = "''https://docs.example''"
  have e0: "COSMOS_ENDPOINT Map.empty = None"
    by (simp add: COSMOS_ENDPOINT_def)
  have e1: "COSMOS_ENDPOINT example_environ = Some ?ep"
    by (simp add: COSMOS_ENDPOINT_def example_environ_def)
  have e2: "?ep \<noteq> []" by simp
  have f1: "database_fault forbidden_account \<noteq> None"
    by (simp add: forbidden_account_def)
  have g: "connect_fault empty_account = None" "database_fault empty_account = None"
      "container_fault empty_account = None"
    by (simp_all add: empty_account_def)
  have n: "\<forall>cs0. map_of (databases empty_account) (DATABASE_NAME example_environ) = Some cs0 \<longrightarrow>
       map_of cs0 (CONTAINER_NAME example_environ) = None"
    by (simp add: empty_account_def)
  have i: "container initial_app = None"
    by (simp add: initial_app_def)
  from initialize_cosmos_client_outcomes [of Map.empty empty_account initial_app] e0
  have a: "\<not> fst (initialize_cosmos_client Map.empty empty_account initial_app)"
    by simp
  from initialize_cosmos_client_outcomes [of example_environ forbidden_account initial_app] e1 e2 f1
  have b: "\<not> fst (initialize_cosmos_client example_environ forbidden_account initial_app)"
    by blast
  from initialize_cosmos_client_outcomes [of example_environ forbidden_account initial_app] b
  have "container (fst (snd (initialize_cosmos_client example_environ forbidden_account initial_app))) =
      container initial_app"
    by blast
  with i have c: "container (fst (snd (initialize_cosmos_client example_environ forbidden_account
      initial_app))) = None"
    by simp
  from initialize_cosmos_client_outcomes [of example_environ empty_account initial_app] e1 e2 g
  have d: "fst (initialize_cosmos_client example_environ empty_account initial_app) \<and>
      (\<exists>c. container (fst (snd (initialize_cosmos_client example_environ empty_account initial_app))) =
              Some c \<and>
           ((\<forall>cs0. map_of (databases empty_account) (DATABASE_NAME example_environ) = Some cs0 \<longrightarrow>
                   map_of cs0 (CONTAINER_NAME example_environ) = None) \<longrightarrow>
            c = \<lparr>partition_key_path = ''/category'', offer_throughput = 400,
                  documents = [], outage = None\<rparr>))"
    by blast
  with n have k: "container (fst (snd (initialize_cosmos_client example_environ empty_account
      initial_app))) =
     Some \<lparr>partition_key_path = ''/category'', offer_throughput = 400,
            documents = [], outage = None\<rparr>"
    by blast
  from e0 a e1 e2 f1 b c g d k show ?thesis by blast
qed

end
